theory Spec2Isabelle
  imports Complex_Main
begin

section \<open>Numbers and vectors\<close>

text \<open>
  The planner computes with JavaScript numbers.  They are embedded as the real numbers:
  every arithmetic expression of the source is kept as written, and the results below
  are statements of exact real arithmetic about these expressions.  Rounding, overflow
  and NaN are outside this embedding; a division by zero has the HOL value 0 where
  JavaScript gives an infinity or NaN.  The one block of the source that guards against
  rounding and whose result may be NaN, the ejection angle of a maneuvre, is embedded
  over numbers with NaN, infinities and rounding (section \<open>Floating-point numbers\<close>).
\<close>

record vec3 =
  x :: real
  y :: real
  z :: real

text \<open>
  \<^verbatim>\<open>THREE.Vector3\<close> belongs to the three.js library, not to the repository.  The
  rotation \<^verbatim>\<open>applyAxisAngle(axis, angle)\<close> is a parameter of every function that calls
  it; the elementary operations are written out below.  Methods that overwrite their
  receiver in JavaScript return the new vector here; their effect on the receiver is in
  the subsection on the store of orbit objects.
\<close>

type_synonym rotation = "vec3 \<Rightarrow> vec3 \<Rightarrow> real \<Rightarrow> vec3"

definition multiplyScalar :: "vec3 \<Rightarrow> real \<Rightarrow> vec3" where
  "multiplyScalar v s = \<lparr>x = x v * s, y = y v * s, z = z v * s\<rparr>"


definition v3cross :: "vec3 \<Rightarrow> vec3 \<Rightarrow> vec3" where
  "v3cross a b = \<lparr>x = y a * z b - z a * y b, y = z a * x b - x a * z b, z = x a * y b - y a * x b\<rparr>"


definition degToRad :: "real \<Rightarrow> real" where
  "degToRad d = d * (pi / 180)"

section \<open>Floating-point numbers\<close>

text \<open>
  A JavaScript number is NaN, one of the two infinities, or a finite number, embedded as
  a real.  The operations follow IEEE 754 on NaN and the infinities.  On finite numbers
  they round the exact result with a function \<open>fl\<close> from the reals to the reals, the
  rounding to a double, which is a parameter of every operation that rounds;
  \<^verbatim>\<open>Math.max\<close>, \<^verbatim>\<open>Math.min\<close> and \<^verbatim>\<open>Math.sign\<close> are exact.  A finite result too large for a
  double (which JavaScript turns into an infinity) and the sign of zero are not modelled:
  a division of a finite number by zero gives the infinity of the sign of the numerator.
\<close>

datatype jsNumber = NaN | PosInf | NegInf | Num real

type_synonym rounding = "real \<Rightarrow> real"


text \<open>
  \<open>signOf\<close> is the sign of a number that is not NaN, and \<open>signedInf s\<close> the infinity of
  the sign \<open>s\<close>, NaN when there is no sign: the result of \<^verbatim>\<open>Infinity * 0\<close> and of
  \<^verbatim>\<open>0 / 0\<close>.
\<close>

fun signOf :: "jsNumber \<Rightarrow> real" where
  "signOf (Num a) = sgn a"
| "signOf PosInf = 1"
| "signOf NegInf = - 1"
| "signOf NaN = 0"

definition signedInf :: "real \<Rightarrow> jsNumber" where
  "signedInf s = (if s = 0 then NaN else if 0 < s then PosInf else NegInf)"


fun jsTimes :: "rounding \<Rightarrow> jsNumber \<Rightarrow> jsNumber \<Rightarrow> jsNumber" where
  "jsTimes fl (Num a) (Num b) = Num (fl (a * b))"
| "jsTimes fl NaN b = NaN"
| "jsTimes fl a NaN = NaN"
| "jsTimes fl a b = signedInf (signOf a * signOf b)"

fun jsPlus :: "rounding \<Rightarrow> jsNumber \<Rightarrow> jsNumber \<Rightarrow> jsNumber" where
  "jsPlus fl (Num a) (Num b) = Num (fl (a + b))"
| "jsPlus fl NaN b = NaN"
| "jsPlus fl a NaN = NaN"
| "jsPlus fl PosInf NegInf = NaN"
| "jsPlus fl NegInf PosInf = NaN"
| "jsPlus fl PosInf b = PosInf"
| "jsPlus fl a PosInf = PosInf"
| "jsPlus fl NegInf b = NegInf"
| "jsPlus fl a NegInf = NegInf"


fun jsDivide :: "rounding \<Rightarrow> jsNumber \<Rightarrow> jsNumber \<Rightarrow> jsNumber" where
  "jsDivide fl (Num a) (Num b) = (if b = 0 then signedInf (sgn a) else Num (fl (a / b)))"
| "jsDivide fl NaN b = NaN"
| "jsDivide fl a NaN = NaN"
| "jsDivide fl (Num a) b = Num 0"
| "jsDivide fl a (Num b) = signedInf (signOf a * (if b < 0 then - 1 else 1))"
| "jsDivide fl a b = NaN"

fun jsSqrt :: "rounding \<Rightarrow> jsNumber \<Rightarrow> jsNumber" where
  "jsSqrt fl (Num a) = (if a < 0 then NaN else Num (fl (sqrt a)))"
| "jsSqrt fl PosInf = PosInf"
| "jsSqrt fl a = NaN"

text \<open>
  \<^verbatim>\<open>Math.max\<close> and \<^verbatim>\<open>Math.min\<close> return NaN when an argument is NaN; \<^verbatim>\<open>Math.acos\<close>
  returns NaN for NaN and for every number outside \<open>[-1, 1]\<close>; \<^verbatim>\<open>Math.sign\<close> of NaN is
  NaN.  In \<^verbatim>\<open>a || b\<close> a number \<^verbatim>\<open>a\<close> counts as false when it is 0 or NaN.
\<close>

fun jsMax :: "jsNumber \<Rightarrow> jsNumber \<Rightarrow> jsNumber" where
  "jsMax (Num a) (Num b) = Num (max a b)"
| "jsMax NaN b = NaN"
| "jsMax a NaN = NaN"
| "jsMax PosInf b = PosInf"
| "jsMax a PosInf = PosInf"
| "jsMax NegInf b = b"
| "jsMax a NegInf = a"

fun jsMin :: "jsNumber \<Rightarrow> jsNumber \<Rightarrow> jsNumber" where
  "jsMin (Num a) (Num b) = Num (min a b)"
| "jsMin NaN b = NaN"
| "jsMin a NaN = NaN"
| "jsMin NegInf b = NegInf"
| "jsMin a NegInf = NegInf"
| "jsMin PosInf b = b"
| "jsMin a PosInf = a"

fun jsAcos :: "rounding \<Rightarrow> jsNumber \<Rightarrow> jsNumber" where
  "jsAcos fl (Num c) = (if - 1 \<le> c \<and> c \<le> 1 then Num (fl (arccos c)) else NaN)"
| "jsAcos fl a = NaN"


definition truthy :: "jsNumber \<Rightarrow> bool" where
  "truthy a \<longleftrightarrow> a \<noteq> NaN \<and> a \<noteq> Num 0"

text \<open>
  A point \<^verbatim>\<open>{x, y, z}\<close> of such numbers, and \<^verbatim>\<open>THREE.Vector2\<close> with the methods of
  three.js that the source calls: \<^verbatim>\<open>length()\<close> is \<^verbatim>\<open>Math.sqrt(x * x + y * y)\<close>,
  \<^verbatim>\<open>divideScalar(s)\<close> is \<^verbatim>\<open>multiplyScalar(1 / s)\<close>, \<^verbatim>\<open>normalize()\<close> is
  \<^verbatim>\<open>divideScalar(length() || 1)\<close>, and \<^verbatim>\<open>dot(v)\<close> is \<^verbatim>\<open>x * v.x + y * v.y\<close>.
\<close>

record jsVec3 =
  jx :: jsNumber
  jy :: jsNumber
  jz :: jsNumber

record vec2 =
  vx :: jsNumber
  vy :: jsNumber

definition v2length :: "rounding \<Rightarrow> vec2 \<Rightarrow> jsNumber" where
  "v2length fl v = jsSqrt fl (jsPlus fl (jsTimes fl (vx v) (vx v)) (jsTimes fl (vy v) (vy v)))"

definition v2multiplyScalar :: "rounding \<Rightarrow> vec2 \<Rightarrow> jsNumber \<Rightarrow> vec2" where
  "v2multiplyScalar fl v s = \<lparr>vx = jsTimes fl (vx v) s, vy = jsTimes fl (vy v) s\<rparr>"

definition v2divideScalar :: "rounding \<Rightarrow> vec2 \<Rightarrow> jsNumber \<Rightarrow> vec2" where
  "v2divideScalar fl v s = v2multiplyScalar fl v (jsDivide fl (Num 1) s)"

definition v2normalize :: "rounding \<Rightarrow> vec2 \<Rightarrow> vec2" where
  "v2normalize fl v =
     v2divideScalar fl v (if truthy (v2length fl v) then v2length fl v else Num 1)"

definition v2dot :: "rounding \<Rightarrow> vec2 \<Rightarrow> vec2 \<Rightarrow> jsNumber" where
  "v2dot fl u v = jsPlus fl (jsTimes fl (vx u) (vx v)) (jsTimes fl (vy u) (vy v))"


text \<open>
  What the statements below need of the rounding, and rounding to the nearest double
  has: it is monotone, it leaves 0, 180 and -180 as they are, \<^verbatim>\<open>Math.PI\<close> (the double of
  \<open>\<pi>\<close>) is positive, and \<^verbatim>\<open>Math.PI * 180 / Math.PI\<close> evaluates to at most 180 (in
  doubles it is 180).
\<close>

definition doubleRounding :: "rounding \<Rightarrow> bool" where
  "doubleRounding fl \<longleftrightarrow>
     (\<forall>a b. a \<le> b \<longrightarrow> fl a \<le> fl b)
     \<and> fl 0 = 0 \<and> fl 180 = 180 \<and> fl (- 180) = - 180
     \<and> 0 < fl pi
     \<and> fl (fl (fl pi * 180) / fl pi) \<le> 180"

section \<open>Strings\<close>

text \<open>
  A JavaScript string is a sequence of UTF-16 code units; it is embedded as the list of
  their values.  \<open>utf16\<close> gives the code units of an ASCII literal.
  \<^verbatim>\<open>String.prototype.trim\<close> removes from both ends the code units that ECMAScript
  calls white space or line terminators: TAB, LF, VT, FF, CR, SPACE, NO-BREAK SPACE,
  OGHAM SPACE MARK, the spaces U+2000 to U+200A, LINE and PARAGRAPH SEPARATOR, NARROW
  NO-BREAK SPACE, MEDIUM MATHEMATICAL SPACE, IDEOGRAPHIC SPACE and the byte order mark.
  \<^verbatim>\<open>split(sep)\<close> with a separator of one code unit cuts at every occurrence of it and
  returns at least one piece; \<^verbatim>\<open>substring(0, 2)\<close> keeps the first two code units.
\<close>

type_synonym jsString = "nat list"

definition utf16 :: "string \<Rightarrow> jsString" where
  "utf16 s = map of_char s"

definition isWhiteSpace :: "nat \<Rightarrow> bool" where
  "isWhiteSpace u \<longleftrightarrow>
     u \<in> set [0x0009, 0x000A, 0x000B, 0x000C, 0x000D, 0x0020, 0x00A0, 0x1680,
              0x2028, 0x2029, 0x202F, 0x205F, 0x3000, 0xFEFF]
     \<or> (0x2000 \<le> u \<and> u \<le> 0x200A)"

definition trim :: "jsString \<Rightarrow> jsString" where
  "trim s = rev (dropWhile isWhiteSpace (rev (dropWhile isWhiteSpace s)))"

fun split :: "nat \<Rightarrow> jsString \<Rightarrow> jsString list" where
  "split sep [] = [[]]"
| "split sep (c # cs) =
     (if c = sep then [] # split sep cs
      else (case split sep cs of [] \<Rightarrow> [[c]] | t # ts \<Rightarrow> (c # t) # ts))"

definition substring02 :: "jsString \<Rightarrow> jsString" where
  "substring02 s = take 2 s"

definition hyphen :: nat where
  "hyphen = of_char CHR ''-''"

section \<open>Orbit\<close>

record ICelestialBody =
  bodyId :: nat
  bodyName :: jsString
  radius_of :: real
  stdGravParam :: real
  soi :: real

text \<open>
  \<^verbatim>\<open>IOrbit\<close> as the constructor reads it: the five classical elements.  Two records
  cannot share a field name, so the fields of \<^verbatim>\<open>IOrbit\<close> carry the prefix \<open>d_\<close> (the
  constructor's argument \<^verbatim>\<open>data\<close>), those of \<^verbatim>\<open>OrbitalElements3D\<close> the prefix \<open>el_\<close>,
  and \<^verbatim>\<open>id\<close>, \<^verbatim>\<open>name\<close> and \<^verbatim>\<open>radius\<close> of a body are \<open>bodyId\<close>, \<open>bodyName\<close> and
  \<open>radius_of\<close>.
\<close>

record IOrbit =
  d_semiMajorAxis :: real
  d_eccentricity :: real
  d_inclination :: real
  d_argOfPeriapsis :: real
  d_ascNodeLongitude :: real

text \<open>
  The class \<^verbatim>\<open>Orbit\<close>.  The optional fields \<^verbatim>\<open>apoapsis?\<close> and
  \<^verbatim>\<open>periapsis?\<close> are options: \<open>None\<close> is JavaScript's \<^verbatim>\<open>undefined\<close>.
\<close>

record Orbit =
  semiMajorAxis :: real
  apoapsis :: "real option"
  periapsis :: "real option"
  eccentricity :: real
  inclination :: real
  argOfPeriapsis :: real
  ascNodeLongitude :: real
  orbitalParam :: real
  meanMotion :: real
  ascNodeDir :: vec3
  periapsisDir :: vec3
  normal :: vec3
  attractor :: ICelestialBody

text \<open>The constructor, assignment by assignment.\<close>

definition newOrbit :: "rotation \<Rightarrow> IOrbit \<Rightarrow> ICelestialBody \<Rightarrow> bool \<Rightarrow> Orbit" where
  "newOrbit applyAxisAngle data attr anglesToRad =
    (let a = d_semiMajorAxis data;
         e = d_eccentricity data;
         p = a * (1 - e ^ 2);
         n = sqrt (stdGravParam attr / (\<bar>a\<bar> ^ 3));
         peri = (if e < 1 then Some (a * (1 - e)) else None);
         apo = (case peri of Some q \<Rightarrow> Some (2 * a - q) | None \<Rightarrow> None);
         inc = (if anglesToRad then degToRad (d_inclination data) else d_inclination data);
         argp = (if anglesToRad then degToRad (d_argOfPeriapsis data) else d_argOfPeriapsis data);
         lan = (if anglesToRad then degToRad (d_ascNodeLongitude data) else d_ascNodeLongitude data);
         asc = applyAxisAngle \<lparr>x = 1, y = 0, z = 0\<rparr> \<lparr>x = 0, y = 1, z = 0\<rparr> lan;
         nrm = applyAxisAngle \<lparr>x = 0, y = 1, z = 0\<rparr> asc inc;
         pdir = applyAxisAngle asc nrm argp
     in \<lparr>semiMajorAxis = a, apoapsis = apo, periapsis = peri, eccentricity = e,
         inclination = inc, argOfPeriapsis = argp, ascNodeLongitude = lan,
         orbitalParam = p, meanMotion = n,
         ascNodeDir = asc, periapsisDir = pdir, normal = nrm, attractor = attr\<rparr>)"

record OrbitalElements3D =
  el_eccentricity :: real
  el_semiMajorAxis :: real
  el_inclination :: real
  el_ascNodeLongitude :: real
  el_argOfPeriapsis :: real


text \<open>\<^verbatim>\<open>radius(trueAnomaly)\<close> and \<^verbatim>\<open>positionFromTrueAnomaly(trueAnomaly)\<close>.\<close>

definition radius :: "Orbit \<Rightarrow> real \<Rightarrow> real" where
  "radius orb trueAnomaly = orbitalParam orb / (1 + eccentricity orb * cos trueAnomaly)"

definition positionFromTrueAnomaly :: "rotation \<Rightarrow> Orbit \<Rightarrow> real \<Rightarrow> vec3" where
  "positionFromTrueAnomaly applyAxisAngle orb trueAnomaly =
    multiplyScalar (applyAxisAngle (periapsisDir orb) (normal orb) trueAnomaly)
      (radius orb trueAnomaly)"

text \<open>
  \<^verbatim>\<open>velocityFromTrueAnomaly(trueAnomaly)\<close>.  \<open>eccentricFromTrue\<close> is its expression for
  the eccentric anomaly \<^verbatim>\<open>E\<close> of an elliptical orbit.
\<close>

definition eccentricFromTrue :: "real \<Rightarrow> real \<Rightarrow> real" where
  "eccentricFromTrue e nu = 2 * arctan (tan (nu * (1/2)) * sqrt ((1 - e) / (1 + e)))"

definition velocityFromTrueAnomaly :: "rotation \<Rightarrow> Orbit \<Rightarrow> real \<Rightarrow> vec3" where
  "velocityFromTrueAnomaly applyAxisAngle orb trueAnomaly =
     (let e = eccentricity orb;
          mu = stdGravParam (attractor orb);
          nu = trueAnomaly;
          a = semiMajorAxis orb;
          r = radius orb nu;
          vel = (if e < 1 then
                   (let v = sqrt (mu * a) / r;
                        E = eccentricFromTrue e nu
                    in \<lparr>x = - v * sin E, y = 0, z = - v * sqrt (1 - e * e) * cos E\<rparr>)
                 else
                   (let v = sqrt (- mu * a) / r;
                        H = 2 * artanh (tan (nu * (1/2)) * sqrt ((e - 1) / (e + 1)))
                    in \<lparr>x = - v * sinh H, y = 0, z = - v * sqrt (e * e - 1) * cosh H\<rparr>));
          right = \<lparr>x = 1, y = 0, z = 0\<rparr>;
          up = \<lparr>x = 0, y = 1, z = 0\<rparr>;
          ascNode = applyAxisAngle right up (ascNodeLongitude orb);
          vel1 = applyAxisAngle vel up (ascNodeLongitude orb);
          vel2 = applyAxisAngle vel1 up (argOfPeriapsis orb);
          vel3 = applyAxisAngle vel2 ascNode (inclination orb)
      in vel3)"

subsection \<open>The Newton iteration of \<^verbatim>\<open>solveTrueAnomalyAtDate\<close>\<close>

definition newtonTol :: real where
  "newtonTol = 1 / 10 ^ 15"

text \<open>
  The state of the \<^verbatim>\<open>while\<close> loop of the local function \<^verbatim>\<open>newton\<close>:
  \<^verbatim>\<open>(prevX, x, n)\<close>.  One pass of the body is \<open>newtonStep\<close>, the loop test is
  \<open>newtonContinue\<close>, and \<open>newtonInit\<close> is the state the loop is entered with.
\<close>

type_synonym newtonState = "real \<times> real \<times> nat"

definition newtonContinue :: "newtonState \<Rightarrow> bool" where
  "newtonContinue s = (case s of (prevX, xc, n) \<Rightarrow> \<bar>xc - prevX\<bar> > newtonTol \<and> n < 1000)"

definition newtonStep :: "(real \<Rightarrow> real) \<Rightarrow> (real \<Rightarrow> real) \<Rightarrow> newtonState \<Rightarrow> newtonState" where
  "newtonStep f df s = (case s of (prevX, xc, n) \<Rightarrow> (xc, xc - f xc / df xc, n + 1))"

function newtonLoop :: "(real \<Rightarrow> real) \<Rightarrow> (real \<Rightarrow> real) \<Rightarrow> newtonState \<Rightarrow> newtonState" where
  "newtonLoop f df s = (if newtonContinue s then newtonLoop f df (newtonStep f df s) else s)"
  by pat_completeness auto
termination
  by (relation "measure (\<lambda>(f, df, s). 1000 - snd (snd s))")
     (auto simp: newtonContinue_def newtonStep_def)

declare newtonLoop.simps [simp del]

definition newtonInit :: "(real \<Rightarrow> real) \<Rightarrow> (real \<Rightarrow> real) \<Rightarrow> real \<Rightarrow> newtonState" where
  "newtonInit f df M = (M, M - f M / df M, 0)"

definition newton :: "(real \<Rightarrow> real) \<Rightarrow> (real \<Rightarrow> real) \<Rightarrow> real \<Rightarrow> real" where
  "newton f df M = fst (snd (newtonLoop f df (newtonInit f df M)))"

text \<open>The two pairs of closures handed to \<^verbatim>\<open>newton\<close>: the function and its derivative.\<close>

definition keplerEll :: "real \<Rightarrow> real \<Rightarrow> real \<Rightarrow> real" where
  "keplerEll e M xc = xc - e * sin xc - M"

definition keplerEll' :: "real \<Rightarrow> real \<Rightarrow> real" where
  "keplerEll' e xc = 1 - e * cos xc"

definition keplerHyp :: "real \<Rightarrow> real \<Rightarrow> real \<Rightarrow> real" where
  "keplerHyp e M xc = e * sinh xc - xc - M"

definition keplerHyp' :: "real \<Rightarrow> real \<Rightarrow> real" where
  "keplerHyp' e xc = e * cosh xc - 1"

definition meanAnomalyAt :: "Orbit \<Rightarrow> real \<Rightarrow> real \<Rightarrow> real \<Rightarrow> real" where
  "meanAnomalyAt orb meanAnomaly0 epoch date = meanAnomaly0 + meanMotion orb * (date - epoch)"

definition solveTrueAnomalyAtDate :: "Orbit \<Rightarrow> real \<Rightarrow> real \<Rightarrow> real \<Rightarrow> real" where
  "solveTrueAnomalyAtDate orb meanAnomaly0 epoch date =
    (let e = eccentricity orb;
         M = meanAnomalyAt orb meanAnomaly0 epoch date
     in if eccentricity orb < 1 then
          (let E = newton (keplerEll e M) (keplerEll' e) M
           in 2 * arctan (sqrt ((1 + e) / (1 - e)) * tan (E * (1/2))))
        else
          (let H = newton (keplerHyp e M) (keplerHyp' e) M
           in 2 * arctan (sqrt ((e + 1) / (e - 1)) * tanh (H * (1/2)))))"

definition stateAtDate :: "rotation \<Rightarrow> Orbit \<Rightarrow> real \<Rightarrow> real \<Rightarrow> real \<Rightarrow> vec3 \<times> vec3" where
  "stateAtDate applyAxisAngle orb meanAnomaly0 epoch date =
     (let nu = solveTrueAnomalyAtDate orb meanAnomaly0 epoch date
      in (positionFromTrueAnomaly applyAxisAngle orb nu,
          velocityFromTrueAnomaly applyAxisAngle orb nu))"

subsection \<open>Orbit objects in a store\<close>

text \<open>
  In JavaScript an orbit is an object, and its three direction vectors are
  \<^verbatim>\<open>THREE.Vector3\<close> objects that it refers to.  A vector object can be overwritten:
  \<^verbatim>\<open>applyAxisAngle\<close>, \<^verbatim>\<open>multiplyScalar\<close> and \<^verbatim>\<open>set\<close> change their receiver, while
  \<^verbatim>\<open>new\<close> and \<^verbatim>\<open>clone()\<close> make a new object.  To state what the operations of the class
  change, the objects are kept in a store: a map from references to vectors, a map from
  references to orbit objects, and the next free reference.  An orbit object holds its
  numbers, its attractor, and the references of its three vectors.  Every operation takes
  the store and returns it with its result.

  The record \<open>Orbit\<close> above is the value of an orbit object: \<open>orbitOf h this\<close> reads the
  fields of the object \<open>this\<close> and the vectors they refer to in the store \<open>h\<close>.  The
  functions above compute with these values; the operations below are the same methods
  with their effect on the store.
\<close>

type_synonym ref = nat

record OrbitObject =
  this_semiMajorAxis :: real
  this_apoapsis :: "real option"
  this_periapsis :: "real option"
  this_eccentricity :: real
  this_inclination :: real
  this_argOfPeriapsis :: real
  this_ascNodeLongitude :: real
  this_orbitalParam :: real
  this_meanMotion :: real
  this_ascNodeDir :: ref
  this_periapsisDir :: ref
  this_normal :: ref
  this_attractor :: ICelestialBody

record store =
  vectors :: "ref \<Rightarrow> vec3"
  orbitObjects :: "ref \<Rightarrow> OrbitObject"
  nextRef :: ref

text \<open>
  The operations of three.js on vector objects.  \<^verbatim>\<open>new THREE.Vector3(x, y, z)\<close> and
  \<^verbatim>\<open>clone()\<close> take the next free reference; the others overwrite the vector at the
  reference of their receiver.
\<close>

definition newVector3 :: "vec3 \<Rightarrow> store \<Rightarrow> ref \<times> store" where
  "newVector3 v h = (nextRef h, h\<lparr>vectors := (vectors h)(nextRef h := v), nextRef := nextRef h + 1\<rparr>)"

definition clone :: "ref \<Rightarrow> store \<Rightarrow> ref \<times> store" where
  "clone r h = newVector3 (vectors h r) h"

definition setVector :: "ref \<Rightarrow> vec3 \<Rightarrow> store \<Rightarrow> store" where
  "setVector r v h = h\<lparr>vectors := (vectors h)(r := v)\<rparr>"

definition applyAxisAngleAt :: "rotation \<Rightarrow> ref \<Rightarrow> ref \<Rightarrow> real \<Rightarrow> store \<Rightarrow> store" where
  "applyAxisAngleAt applyAxisAngle r axis angle h =
     setVector r (applyAxisAngle (vectors h r) (vectors h axis) angle) h"

definition multiplyScalarAt :: "ref \<Rightarrow> real \<Rightarrow> store \<Rightarrow> store" where
  "multiplyScalarAt r s h = setVector r (multiplyScalar (vectors h r) s) h"

definition orbitOf :: "store \<Rightarrow> ref \<Rightarrow> Orbit" where
  "orbitOf h this =
     (let ob = orbitObjects h this
      in \<lparr>semiMajorAxis = this_semiMajorAxis ob, apoapsis = this_apoapsis ob,
          periapsis = this_periapsis ob, eccentricity = this_eccentricity ob,
          inclination = this_inclination ob, argOfPeriapsis = this_argOfPeriapsis ob,
          ascNodeLongitude = this_ascNodeLongitude ob, orbitalParam = this_orbitalParam ob,
          meanMotion = this_meanMotion ob,
          ascNodeDir = vectors h (this_ascNodeDir ob),
          periapsisDir = vectors h (this_periapsisDir ob),
          normal = vectors h (this_normal ob),
          attractor = this_attractor ob\<rparr>)"

text \<open>
  The constructor and the methods, statement by statement.  The constructor takes a
  reference for the new object, makes the vectors and rotates them in place, and stores
  the object.
\<close>

definition newOrbitAt :: "rotation \<Rightarrow> IOrbit \<Rightarrow> ICelestialBody \<Rightarrow> bool \<Rightarrow> store \<Rightarrow> ref \<times> store" where
  "newOrbitAt applyAxisAngle data attr anglesToRad h =
    (let this = nextRef h;
         h0 = h\<lparr>nextRef := nextRef h + 1\<rparr>;
         a = d_semiMajorAxis data;
         e = d_eccentricity data;
         p = a * (1 - e ^ 2);
         n = sqrt (stdGravParam attr / (\<bar>a\<bar> ^ 3));
         peri = (if e < 1 then Some (a * (1 - e)) else None);
         apo = (case peri of Some q \<Rightarrow> Some (2 * a - q) | None \<Rightarrow> None);
         inc = (if anglesToRad then degToRad (d_inclination data) else d_inclination data);
         argp = (if anglesToRad then degToRad (d_argOfPeriapsis data) else d_argOfPeriapsis data);
         lan = (if anglesToRad then degToRad (d_ascNodeLongitude data) else d_ascNodeLongitude data);
         (asc, h1) = newVector3 \<lparr>x = 1, y = 0, z = 0\<rparr> h0;
         (axis, h2) = newVector3 \<lparr>x = 0, y = 1, z = 0\<rparr> h1;
         h3 = applyAxisAngleAt applyAxisAngle asc axis lan h2;
         (nrm, h4) = newVector3 \<lparr>x = 0, y = 1, z = 0\<rparr> h3;
         h5 = applyAxisAngleAt applyAxisAngle nrm asc inc h4;
         (pdir, h6) = clone asc h5;
         h7 = applyAxisAngleAt applyAxisAngle pdir nrm argp h6
     in (this, h7\<lparr>orbitObjects := (orbitObjects h7)(this :=
           \<lparr>this_semiMajorAxis = a, this_apoapsis = apo, this_periapsis = peri,
            this_eccentricity = e, this_inclination = inc, this_argOfPeriapsis = argp,
            this_ascNodeLongitude = lan, this_orbitalParam = p, this_meanMotion = n,
            this_ascNodeDir = asc, this_periapsisDir = pdir, this_normal = nrm,
            this_attractor = attr\<rparr>)\<rparr>))"

definition fromOrbitalElementsAt :: "rotation \<Rightarrow> OrbitalElements3D \<Rightarrow> ICelestialBody \<Rightarrow> store \<Rightarrow> ref \<times> store" where
  "fromOrbitalElementsAt applyAxisAngle elements attr h =
    newOrbitAt applyAxisAngle
      \<lparr>d_semiMajorAxis = el_semiMajorAxis elements,
       d_eccentricity = el_eccentricity elements,
       d_inclination = el_inclination elements,
       d_argOfPeriapsis = el_argOfPeriapsis elements,
       d_ascNodeLongitude = el_ascNodeLongitude elements\<rparr>
      attr False h"

definition positionFromTrueAnomalyAt :: "rotation \<Rightarrow> ref \<Rightarrow> real \<Rightarrow> store \<Rightarrow> ref \<times> store" where
  "positionFromTrueAnomalyAt applyAxisAngle this trueAnomaly h =
     (let (pos, h1) = clone (this_periapsisDir (orbitObjects h this)) h;
          h2 = applyAxisAngleAt applyAxisAngle pos (this_normal (orbitObjects h1 this)) trueAnomaly h1;
          h3 = multiplyScalarAt pos (radius (orbitOf h2 this) trueAnomaly) h2
      in (pos, h3))"

definition velocityFromTrueAnomalyAt :: "rotation \<Rightarrow> ref \<Rightarrow> real \<Rightarrow> store \<Rightarrow> ref \<times> store" where
  "velocityFromTrueAnomalyAt applyAxisAngle this trueAnomaly h =
     (let e = this_eccentricity (orbitObjects h this);
          mu = stdGravParam (this_attractor (orbitObjects h this));
          nu = trueAnomaly;
          a = this_semiMajorAxis (orbitObjects h this);
          r = radius (orbitOf h this) nu;
          (vel, h1) = newVector3 \<lparr>x = 0, y = 0, z = 0\<rparr> h;
          h2 = setVector vel
                 (if e < 1 then
                    (let v = sqrt (mu * a) / r;
                         E = eccentricFromTrue e nu
                     in \<lparr>x = - v * sin E, y = 0, z = - v * sqrt (1 - e * e) * cos E\<rparr>)
                  else
                    (let v = sqrt (- mu * a) / r;
                         H = 2 * artanh (tan (nu * (1/2)) * sqrt ((e - 1) / (e + 1)))
                     in \<lparr>x = - v * sinh H, y = 0, z = - v * sqrt (e * e - 1) * cosh H\<rparr>)) h1;
          (right, h3) = newVector3 \<lparr>x = 1, y = 0, z = 0\<rparr> h2;
          (up, h4) = newVector3 \<lparr>x = 0, y = 1, z = 0\<rparr> h3;
          (ascNode, h5) = clone right h4;
          h6 = applyAxisAngleAt applyAxisAngle ascNode up (this_ascNodeLongitude (orbitObjects h5 this)) h5;
          h7 = applyAxisAngleAt applyAxisAngle vel up (this_ascNodeLongitude (orbitObjects h6 this)) h6;
          h8 = applyAxisAngleAt applyAxisAngle vel up (this_argOfPeriapsis (orbitObjects h7 this)) h7;
          h9 = applyAxisAngleAt applyAxisAngle vel ascNode (this_inclination (orbitObjects h8 this)) h8
      in (vel, h9))"

definition stateAtDateAt ::
  "rotation \<Rightarrow> ref \<Rightarrow> real \<Rightarrow> real \<Rightarrow> real \<Rightarrow> store \<Rightarrow> (ref \<times> ref) \<times> store" where
  "stateAtDateAt applyAxisAngle this meanAnomaly0 epoch date h =
     (let nu = solveTrueAnomalyAtDate (orbitOf h this) meanAnomaly0 epoch date;
          (pos, h1) = positionFromTrueAnomalyAt applyAxisAngle this nu h;
          (vel, h2) = velocityFromTrueAnomalyAt applyAxisAngle this nu h1
      in ((pos, vel), h2))"

text \<open>
  The operations of the class on a store: the constructor, the static
  \<^verbatim>\<open>fromOrbitalElements\<close>, the getter \<^verbatim>\<open>data\<close> and the five methods, each on any
  reference.  \<open>performAll\<close> runs a list of them.  The getter, \<^verbatim>\<open>radius\<close> and
  \<^verbatim>\<open>solveTrueAnomalyAtDate\<close> make and overwrite no object.
\<close>

datatype orbitOperation =
    Construct IOrbit ICelestialBody bool
  | FromOrbitalElements OrbitalElements3D ICelestialBody
  | GetData ref
  | SolveTrueAnomalyAtDate ref real real real
  | PositionFromTrueAnomaly ref real
  | VelocityFromTrueAnomaly ref real
  | Radius ref real
  | StateAtDate ref real real real

fun perform :: "rotation \<Rightarrow> store \<Rightarrow> orbitOperation \<Rightarrow> store" where
  "perform applyAxisAngle h (Construct data attr anglesToRad) =
     snd (newOrbitAt applyAxisAngle data attr anglesToRad h)"
| "perform applyAxisAngle h (FromOrbitalElements elements attr) =
     snd (fromOrbitalElementsAt applyAxisAngle elements attr h)"
| "perform applyAxisAngle h (GetData this) = h"
| "perform applyAxisAngle h (SolveTrueAnomalyAtDate this meanAnomaly0 epoch date) = h"
| "perform applyAxisAngle h (PositionFromTrueAnomaly this trueAnomaly) =
     snd (positionFromTrueAnomalyAt applyAxisAngle this trueAnomaly h)"
| "perform applyAxisAngle h (VelocityFromTrueAnomaly this trueAnomaly) =
     snd (velocityFromTrueAnomalyAt applyAxisAngle this trueAnomaly h)"
| "perform applyAxisAngle h (Radius this trueAnomaly) = h"
| "perform applyAxisAngle h (StateAtDate this meanAnomaly0 epoch date) =
     snd (stateAtDateAt applyAxisAngle this meanAnomaly0 epoch date h)"

definition performAll :: "rotation \<Rightarrow> orbitOperation list \<Rightarrow> store \<Rightarrow> store" where
  "performAll applyAxisAngle ops h = foldl (perform applyAxisAngle) h ops"

text \<open>
  An orbit object is \<open>allocated\<close> in a store when its reference and those of its three
  vectors are in use.  \<open>preserves h h'\<close> says that \<open>h'\<close> has every object of \<open>h\<close>, as it
  is in \<open>h\<close>.
\<close>

definition allocated :: "store \<Rightarrow> ref \<Rightarrow> bool" where
  "allocated h this \<longleftrightarrow>
     this < nextRef h
     \<and> this_ascNodeDir (orbitObjects h this) < nextRef h
     \<and> this_periapsisDir (orbitObjects h this) < nextRef h
     \<and> this_normal (orbitObjects h this) < nextRef h"

definition preserves :: "store \<Rightarrow> store \<Rightarrow> bool" where
  "preserves h h' \<longleftrightarrow>
     nextRef h \<le> nextRef h'
     \<and> (\<forall>r<nextRef h. vectors h' r = vectors h r \<and> orbitObjects h' r = orbitObjects h r)"

subsection \<open>Vocabulary for the statements about the solver\<close>

text \<open>
  \<open>newtonIterate f df M k\<close> is the loop state after \<open>k\<close> passes of the body,
  \<open>newtonDelta\<close> the quantity \<^verbatim>\<open>Math.abs(x - prevX)\<close> the loop tests, and
  \<open>newtonStopsAt f df M k\<close> says that the test held before each of the first \<open>k\<close>
  passes and fails after them, on the tolerance or on the counter.
\<close>

definition newtonIterate :: "(real \<Rightarrow> real) \<Rightarrow> (real \<Rightarrow> real) \<Rightarrow> real \<Rightarrow> nat \<Rightarrow> newtonState" where
  "newtonIterate f df M k = (newtonStep f df ^^ k) (newtonInit f df M)"

definition newtonDelta :: "newtonState \<Rightarrow> real" where
  "newtonDelta s = (case s of (prevX, xc, n) \<Rightarrow> \<bar>xc - prevX\<bar>)"

definition newtonStopsAt :: "(real \<Rightarrow> real) \<Rightarrow> (real \<Rightarrow> real) \<Rightarrow> real \<Rightarrow> nat \<Rightarrow> bool" where
  "newtonStopsAt f df M k \<longleftrightarrow>
     (\<forall>j<k. newtonDelta (newtonIterate f df M j) > newtonTol)
     \<and> (newtonDelta (newtonIterate f df M k) \<le> newtonTol \<or> k = 1000)"


section \<open>FlybySequence\<close>

text \<open>An orbiting body is a celestial body with an attractor and an orbit.\<close>

record OrbitingBody = ICelestialBody +
  ob_attractor :: ICelestialBody
  ob_orbit :: Orbit

text \<open>The three errors \<^verbatim>\<open>fromString\<close> throws, with their messages.\<close>

datatype sequenceError = SameAttractorError | InvalidInputError | TooShortError

definition errorMessage :: "sequenceError \<Rightarrow> string" where
  "errorMessage e = (case e of
      SameAttractorError \<Rightarrow> ''All bodies of the sequence must orbit around the same body.''
    | InvalidInputError \<Rightarrow> ''Invalid custom sequence input.''
    | TooShortError \<Rightarrow> ''The sequence must contain at least two bodies.'')"

text \<open>
  The inner loop over \<^verbatim>\<open>system.orbiting\<close> stops at the first body whose initials are the
  token: \<open>matchBody\<close>.  The outer loop is \<open>parseInitials\<close>, with the index \<^verbatim>\<open>i\<close>, the
  variable \<^verbatim>\<open>attractor\<close> and the array \<^verbatim>\<open>ids\<close> as arguments.  A result \<open>Inr ids\<close> of
  \<open>fromString\<close> stands for \<^verbatim>\<open>new FlybySequence(system, ids)\<close>.
\<close>

definition matchBody :: "OrbitingBody list \<Rightarrow> jsString \<Rightarrow> OrbitingBody option" where
  "matchBody orbiting initial = find (\<lambda>body. substring02 (bodyName body) = initial) orbiting"

fun parseInitials ::
  "OrbitingBody list \<Rightarrow> jsString list \<Rightarrow> nat \<Rightarrow> nat \<Rightarrow> nat list \<Rightarrow> sequenceError + nat list" where
  "parseInitials orbiting [] i attr ids = Inr ids"
| "parseInitials orbiting (initial # rest) i attr ids =
     (case matchBody orbiting initial of
        None \<Rightarrow> Inl InvalidInputError
      | Some body \<Rightarrow>
          if i = 0 then
            parseInitials orbiting rest (i + 1) (bodyId (ob_attractor body)) (ids @ [bodyId body])
          else if bodyId (ob_attractor body) \<noteq> attr then Inl SameAttractorError
          else parseInitials orbiting rest (i + 1) attr (ids @ [bodyId body]))"

definition fromString :: "jsString \<Rightarrow> OrbitingBody list \<Rightarrow> sequenceError + nat list" where
  "fromString str orbiting =
     (case parseInitials orbiting (split hyphen (trim str)) 0 0 [] of
        Inl err \<Rightarrow> Inl err
      | Inr ids \<Rightarrow> if length ids \<le> 1 then Inl TooShortError else Inr ids)"

section \<open>The trajectory optimizer worker\<close>

subsection \<open>Trajectory steps\<close>

datatype ManeuvreContext = Ejection | Dsm nat nat | Circularization

record ManeuvreInfo =
  m_position :: jsVec3
  deltaVToPrevStep :: vec3
  progradeDir :: vec3
  m_context :: ManeuvreContext

record FlybyInfo =
  f_bodyId :: nat
  soiEnterDate :: real
  soiExitDate :: real
  periRadius :: real
  f_inclination :: real

record TrajectoryStep =
  orbitElts :: OrbitalElements3D
  attractorId :: nat
  dateOfStart :: real
  duration :: real
  maneuvre :: "ManeuvreInfo option"
  flyby :: "FlybyInfo option"
  startM :: real
  drawBegin :: real
  drawEnd :: real

type_synonym Agent = "real list"

record TrajectoryUserSettings =
  noInsertion :: bool
  destAltitude :: real
  maxDuration :: real

subsection \<open>The library scripts\<close>

text \<open>
  The worker imports \<^verbatim>\<open>TrajectoryCalculator\<close>, \<^verbatim>\<open>Utils.hasNaN\<close>,
  \<^verbatim>\<open>Evolution.randomizeAgent\<close> and \<^verbatim>\<open>Physics3D\<close> from library scripts.  They are
  parameters of the model, collected in a record: \<open>'c\<close> is the state of a calculator
  object and \<open>'r\<close> the state of the random number generator.  A method that may throw
  returns an \<open>outcome\<close>: the state it leaves the calculator in, and whether it returned or
  threw.  \<open>newCalculator\<close> is the calculator after \<^verbatim>\<open>new TrajectoryCalculator(...)\<close> and
  \<^verbatim>\<open>addPrecomputedOrbits\<close>; \<open>hasNaN\<close> is \<^verbatim>\<open>Utils.hasNaN(trajectory.steps)\<close>, a
  predicate of the calculator: its definition is in the library, and the numbers of a
  step are reals here, which hold no NaN, except the position of a maneuvre.
\<close>

datatype 'c outcome = Returns 'c | Throws 'c

record ('c, 'r) libs =
  newCalculator :: 'c
  setParameters :: "TrajectoryUserSettings \<Rightarrow> Agent \<Rightarrow> 'c \<Rightarrow> 'c"
  compute :: "'c \<Rightarrow> 'c outcome"
  recomputeLegsSecondArcs :: "'c \<Rightarrow> 'c outcome"
  reset :: "'c \<Rightarrow> 'c"
  computeStartingMeanAnomalies :: "'c \<Rightarrow> 'c"
  calcSteps :: "'c \<Rightarrow> TrajectoryStep list"
  totalDeltaV :: "'c \<Rightarrow> real"
  totalDuration :: "'c \<Rightarrow> real"
  hasNaN :: "'c \<Rightarrow> bool"
  randomizeAgent :: "Agent \<Rightarrow> 'r \<Rightarrow> Agent \<times> 'r"
  velocityAtRadius :: "OrbitalElements3D \<Rightarrow> ICelestialBody \<Rightarrow> real \<Rightarrow> real"
  circularVelocity :: "ICelestialBody \<Rightarrow> real \<Rightarrow> real"

datatype workerError = ImpossibleToCompute | TypeError

definition workerErrorMessage :: "workerError \<Rightarrow> string" where
  "workerErrorMessage e = (case e of
       ImpossibleToCompute \<Rightarrow> ''Impossible to compute the trajectory.''
     | TypeError \<Rightarrow> ''TypeError'')"

subsection \<open>\<^verbatim>\<open>_computeTrajectory\<close>\<close>

text \<open>
  The \<^verbatim>\<open>try\<close> block: \<open>True\<close> is \<^verbatim>\<open>failed = true\<close>.
\<close>

definition tryCompute :: "('c, 'r) libs \<Rightarrow> 'c \<Rightarrow> bool \<times> 'c" where
  "tryCompute lib trajectory =
     (case compute lib trajectory of
        Throws t1 \<Rightarrow> (True, t1)
      | Returns t1 \<Rightarrow>
          (case recomputeLegsSecondArcs lib t1 of
             Throws t2 \<Rightarrow> (True, t2)
           | Returns t2 \<Rightarrow> (False, t2)))"

text \<open>
  The \<^verbatim>\<open>while\<close> loop.  The agent is re-randomized in place: the loop returns it, and
  the state of the generator, with the trajectory.
\<close>

function computeLoop ::
  "('c, 'r) libs \<Rightarrow> TrajectoryUserSettings \<Rightarrow> 'c \<Rightarrow> Agent \<Rightarrow> 'r \<Rightarrow> nat \<Rightarrow> nat
     \<Rightarrow> workerError + ('c \<times> Agent \<times> 'r)" where
  "computeLoop lib settings trajectory agent g attempts maxAttempts =
     (if attempts < maxAttempts then
        (let t1 = setParameters lib settings agent trajectory;
             failed = fst (tryCompute lib t1);
             t2 = snd (tryCompute lib t1)
         in if failed \<or> hasNaN lib t2 then
              computeLoop lib settings (reset lib t2)
                (fst (randomizeAgent lib agent g)) (snd (randomizeAgent lib agent g))
                (attempts + 1) maxAttempts
            else Inr (t2, agent, g))
      else Inl ImpossibleToCompute)"
  by pat_completeness auto
termination
  by (relation "measure (\<lambda>(lib, settings, trajectory, agent, g, attempts, maxAttempts).
                  maxAttempts - attempts)") auto

declare computeLoop.simps [simp del]

definition computeTrajectory ::
  "('c, 'r) libs \<Rightarrow> TrajectoryUserSettings \<Rightarrow> Agent \<Rightarrow> 'r \<Rightarrow> nat
     \<Rightarrow> workerError + ('c \<times> Agent \<times> 'r)" where
  "computeTrajectory lib settings agent g maxAttempts =
     computeLoop lib settings (newCalculator lib) agent g 0 maxAttempts"

subsection \<open>The fitness function of \<^verbatim>\<open>onWorkerRun\<close>\<close>

text \<open>
  \<^verbatim>\<open>_bestDeltaV\<close> is a number that starts at \<^verbatim>\<open>Infinity\<close>; \<open>lessBest d b\<close> is
  \<^verbatim>\<open>d < b\<close>.
\<close>

datatype BestDeltaV = Infinity | Finite real

fun lessBest :: "real \<Rightarrow> BestDeltaV \<Rightarrow> bool" where
  "lessBest d Infinity = True"
| "lessBest d (Finite b) = (d < b)"

record ('c, 'r) WorkerState =
  bestTrajectory :: "'c option"
  bestDeltaV :: BestDeltaV
  newDeltaVs :: "real list"
  deltaVs :: "real list"
  rng :: 'r

definition numLegs :: "nat list \<Rightarrow> int" where
  "numLegs sequence = int (length sequence) - 1"

definition agentDim :: "nat list \<Rightarrow> int" where
  "agentDim sequence = 3 + numLegs sequence * 4 - 2"

text \<open>
  The block under \<^verbatim>\<open>if(this._settings.noInsertion)\<close>.  Indexing \<^verbatim>\<open>this._system\<close> out of
  range gives \<^verbatim>\<open>undefined\<close>, and reading its radius throws a \<^verbatim>\<open>TypeError\<close>.
\<close>

definition periVelCost ::
  "('c, 'r) libs \<Rightarrow> ICelestialBody list \<Rightarrow> TrajectoryUserSettings \<Rightarrow> TrajectoryStep
     \<Rightarrow> workerError + real" where
  "periVelCost lib system settings lastStep =
     (if noInsertion settings then
        (if attractorId lastStep < length system then
           (let finalOrbit = orbitElts lastStep;
                finalBody = system ! attractorId lastStep;
                periapsis = destAltitude settings + radius_of finalBody;
                periVel = velocityAtRadius lib finalOrbit finalBody periapsis;
                circDV = periVel - circularVelocity lib finalBody periapsis
            in Inr circDV)
         else Inl TypeError)
      else Inr 0)"

text \<open>
  The closure \<^verbatim>\<open>fitness\<close>.  It returns the cost, the agent (which
  \<^verbatim>\<open>_computeTrajectory\<close> may have re-randomized) and the fields of the worker it has
  assigned.  An exception ends the run of the worker: the result is the error.
\<close>

definition fitness ::
  "('c, 'r) libs \<Rightarrow> ICelestialBody list \<Rightarrow> TrajectoryUserSettings \<Rightarrow> ('c, 'r) WorkerState \<Rightarrow> Agent
     \<Rightarrow> workerError + (real \<times> Agent \<times> ('c, 'r) WorkerState)" where
  "fitness lib system settings st agent =
     (case computeTrajectory lib settings agent (rng st) 1000 of
        Inl err \<Rightarrow> Inl err
      | Inr (trajectory, agent1, g1) \<Rightarrow>
          (let st1 = (if lessBest (totalDeltaV lib trajectory) (bestDeltaV st)
                      then st\<lparr>bestDeltaV := Finite (totalDeltaV lib trajectory),
                              bestTrajectory := Some trajectory\<rparr>
                      else st)
           in if calcSteps lib trajectory = [] then Inl TypeError
              else
                (let lastStep = last (calcSteps lib trajectory);
                     finalOrbit = orbitElts lastStep;
                     totDV = totalDeltaV lib trajectory;
                     st2 = st1\<lparr>newDeltaVs := newDeltaVs st1 @ [totDV], rng := g1\<rparr>;
                     lastInc = \<bar>el_inclination finalOrbit\<bar>
                 in case periVelCost lib system settings lastStep of
                      Inl err \<Rightarrow> Inl err
                    | Inr pvc \<Rightarrow>
                        (let duration = totalDuration lib trajectory;
                             durationOverflow = max 0 (duration - maxDuration settings);
                             durationCost = durationOverflow * totDV
                         in Inr (totDV + totDV * lastInc * (1/10) + pvc + durationCost, agent1, st2)))))"

text \<open>
  A search, as \<^verbatim>\<open>onWorkerRun\<close> drives it.  The first call (\<^verbatim>\<open>input.start\<close>) empties
  \<^verbatim>\<open>_newDeltaVs\<close> and sets \<^verbatim>\<open>_bestDeltaV\<close> to \<^verbatim>\<open>Infinity\<close>: \<open>startSearch\<close>.  The evolver
  is another library script; it reaches the fields of the worker only by calling
  \<^verbatim>\<open>fitness\<close>.  So a search is a sequence of steps of three kinds: an evaluation of
  \<^verbatim>\<open>fitness\<close> on some agent, the assignments of \<^verbatim>\<open>onWorkerRun\<close> to \<^verbatim>\<open>_newDeltaVs\<close> and
  \<^verbatim>\<open>_deltaVs\<close>, and its call of \<^verbatim>\<open>computeStartingMeanAnomalies\<close> on the best
  trajectory.  \<open>searchRun lib system settings st dvs st'\<close> holds when such a sequence
  leads from \<open>st\<close> to \<open>st'\<close>, and \<open>dvs\<close> lists the total delta-V of the trajectories
  evaluated on the way.
\<close>

definition startSearch :: "('c, 'r) WorkerState \<Rightarrow> ('c, 'r) WorkerState" where
  "startSearch st = st\<lparr>newDeltaVs := [], bestDeltaV := Infinity\<rparr>"

fun leBest :: "BestDeltaV \<Rightarrow> BestDeltaV \<Rightarrow> bool" where
  "leBest b Infinity = True"
| "leBest Infinity (Finite c) = False"
| "leBest (Finite b) (Finite c) = (b \<le> c)"

inductive searchRun ::
  "('c, 'r) libs \<Rightarrow> ICelestialBody list \<Rightarrow> TrajectoryUserSettings
     \<Rightarrow> ('c, 'r) WorkerState \<Rightarrow> real list \<Rightarrow> ('c, 'r) WorkerState \<Rightarrow> bool"
  for lib system settings where
  start: "searchRun lib system settings st [] st"
| evaluate:
    "searchRun lib system settings st dvs st1 \<Longrightarrow>
     computeTrajectory lib settings agent (rng st1) 1000 = Inr (trajectory, agent1, g1) \<Longrightarrow>
     fitness lib system settings st1 agent = Inr (cost, agent1, st2) \<Longrightarrow>
     searchRun lib system settings st (dvs @ [totalDeltaV lib trajectory]) st2"
| bookkeeping:
    "searchRun lib system settings st dvs st1 \<Longrightarrow>
     searchRun lib system settings st dvs (st1\<lparr>newDeltaVs := nd, deltaVs := d\<rparr>)"
| finalize:
    "searchRun lib system settings st dvs st1 \<Longrightarrow>
     searchRun lib system settings st dvs
       (st1\<lparr>bestTrajectory := map_option (computeStartingMeanAnomalies lib) (bestTrajectory st1)\<rparr>)"

subsection \<open>Vocabulary for the statements about the retry loop\<close>

text \<open>
  The loop variables at the head of the loop are the calculator, the agent and the
  generator.  \<open>attemptFailed\<close> is the test \<^verbatim>\<open>failed || Utils.hasNaN(trajectory.steps)\<close> of
  the attempt made from them, \<open>attemptResult\<close> what the loop returns when the test is
  false, \<open>retry\<close> the loop variables after the branch taken when it is true, and
  \<open>afterFailures lib settings agent g k\<close> the loop variables after \<open>k\<close> such branches.
\<close>

type_synonym ('c, 'r) attemptState = "'c \<times> Agent \<times> 'r"

definition attemptFailed :: "('c, 'r) libs \<Rightarrow> TrajectoryUserSettings \<Rightarrow> ('c, 'r) attemptState \<Rightarrow> bool" where
  "attemptFailed lib settings s = (case s of (trajectory, agent, g) \<Rightarrow>
      fst (tryCompute lib (setParameters lib settings agent trajectory))
      \<or> hasNaN lib (snd (tryCompute lib (setParameters lib settings agent trajectory))))"

definition attemptResult :: "('c, 'r) libs \<Rightarrow> TrajectoryUserSettings \<Rightarrow> ('c, 'r) attemptState \<Rightarrow> ('c, 'r) attemptState" where
  "attemptResult lib settings s = (case s of (trajectory, agent, g) \<Rightarrow>
      (snd (tryCompute lib (setParameters lib settings agent trajectory)), agent, g))"

definition retry :: "('c, 'r) libs \<Rightarrow> TrajectoryUserSettings \<Rightarrow> ('c, 'r) attemptState \<Rightarrow> ('c, 'r) attemptState" where
  "retry lib settings s = (case s of (trajectory, agent, g) \<Rightarrow>
      (reset lib (snd (tryCompute lib (setParameters lib settings agent trajectory))),
       fst (randomizeAgent lib agent g), snd (randomizeAgent lib agent g)))"

definition afterFailures :: "('c, 'r) libs \<Rightarrow> TrajectoryUserSettings \<Rightarrow> Agent \<Rightarrow> 'r \<Rightarrow> nat \<Rightarrow> ('c, 'r) attemptState" where
  "afterFailures lib settings agent g k = (retry lib settings ^^ k) (newCalculator lib, agent, g)"

definition loopFrom :: "('c, 'r) libs \<Rightarrow> TrajectoryUserSettings \<Rightarrow> ('c, 'r) attemptState \<Rightarrow> nat \<Rightarrow> nat
   \<Rightarrow> workerError + ('c, 'r) attemptState" where
  "loopFrom lib settings s n m = (case s of (t, a, h) \<Rightarrow> computeLoop lib settings t a h n m)"

section \<open>Trajectory: the maneuvre details\<close>









section \<open>Concrete inputs\<close>

text \<open>The inputs on which the statements below are evaluated.\<close>

definition unitBody :: ICelestialBody where
  "unitBody = \<lparr>bodyId = 0, bodyName = utf16 ''Sun'', radius_of = 1, stdGravParam = 1, soi = 1\<rparr>"

definition noRotation :: rotation where
  "noRotation v axis angle = v"

definition circularOrbit :: Orbit where
  "circularOrbit = newOrbit noRotation
     \<lparr>d_semiMajorAxis = 1, d_eccentricity = 0, d_inclination = 0,
      d_argOfPeriapsis = 0, d_ascNodeLongitude = 0\<rparr> unitBody True"

definition ellipticOrbit :: Orbit where
  "ellipticOrbit = newOrbit noRotation
     \<lparr>d_semiMajorAxis = 10, d_eccentricity = 1/2, d_inclination = 0,
      d_argOfPeriapsis = 0, d_ascNodeLongitude = 0\<rparr> unitBody True"


text \<open>
  An empty store, the data of \<open>ellipticOrbit\<close>, a rotation that ignores the angle and
  turns the vector a quarter of a turn about the axis, and a list of operations on the
  object at reference 0.
\<close>

definition nullOrbit :: OrbitObject where
  "nullOrbit = \<lparr>this_semiMajorAxis = 0, this_apoapsis = None, this_periapsis = None,
      this_eccentricity = 0, this_inclination = 0, this_argOfPeriapsis = 0,
      this_ascNodeLongitude = 0, this_orbitalParam = 0, this_meanMotion = 0,
      this_ascNodeDir = 0, this_periapsisDir = 0, this_normal = 0, this_attractor = unitBody\<rparr>"

definition emptyStore :: store where
  "emptyStore = \<lparr>vectors = (\<lambda>r. \<lparr>x = 0, y = 0, z = 0\<rparr>), orbitObjects = (\<lambda>r. nullOrbit), nextRef = 0\<rparr>"

definition ellipticData :: IOrbit where
  "ellipticData = \<lparr>d_semiMajorAxis = 10, d_eccentricity = 1/2, d_inclination = 0,
        d_argOfPeriapsis = 0, d_ascNodeLongitude = 0\<rparr>"

definition quarterTurn :: rotation where
  "quarterTurn v axis angle = v3cross axis v"

definition demoOperations :: "orbitOperation list" where
  "demoOperations = [PositionFromTrueAnomaly 0 1, VelocityFromTrueAnomaly 0 2,
      StateAtDate 0 0 0 3, Construct ellipticData unitBody False, GetData 0, Radius 0 1]"

definition sun :: ICelestialBody where
  "sun = \<lparr>bodyId = 0, bodyName = utf16 ''Kerbol'', radius_of = 261600000, stdGravParam = 1, soi = 0\<rparr>"

definition mkBody :: "nat \<Rightarrow> string \<Rightarrow> ICelestialBody \<Rightarrow> OrbitingBody" where
  "mkBody i n a = \<lparr>bodyId = i, bodyName = utf16 n, radius_of = 1, stdGravParam = 1, soi = 1,
      ob_attractor = a, ob_orbit = circularOrbit\<rparr>"

definition kerbin :: OrbitingBody where
  "kerbin = mkBody 3 ''Kerbin'' sun"

definition duna :: OrbitingBody where
  "duna = mkBody 6 ''Duna'' sun"

definition mun :: OrbitingBody where
  "mun = mkBody 4 ''Mun'' (ICelestialBody.truncate kerbin)"

definition demoSystem :: "OrbitingBody list" where
  "demoSystem = [kerbin, mun, duna]"

text \<open>
  A calculator whose state is the agent it was given: the first entry is the total
  delta-V, the second the total duration, and \<^verbatim>\<open>compute\<close> throws on a negative first
  entry.
\<close>

definition demoStep :: TrajectoryStep where
  "demoStep = \<lparr>orbitElts = \<lparr>el_eccentricity = 0, el_semiMajorAxis = 1, el_inclination = 0,
                   el_ascNodeLongitude = 0, el_argOfPeriapsis = 0\<rparr>,
      attractorId = 1, dateOfStart = 0, duration = 0, maneuvre = None, flyby = None,
      startM = 0, drawBegin = 0, drawEnd = 0\<rparr>"

definition demoLib :: "(real list, nat) libs" where
  "demoLib = \<lparr>newCalculator = [],
      setParameters = (\<lambda>settings agent c. agent),
      compute = (\<lambda>c. if c ! 0 < 0 then Throws c else Returns c),
      recomputeLegsSecondArcs = Returns,
      reset = (\<lambda>c. []),
      computeStartingMeanAnomalies = (\<lambda>c. c),
      calcSteps = (\<lambda>c. [demoStep]),
      totalDeltaV = (\<lambda>c. c ! 0),
      totalDuration = (\<lambda>c. c ! 1),
      hasNaN = (\<lambda>c. False),
      randomizeAgent = (\<lambda>agent g. ([50, 20], g + 1)),
      velocityAtRadius = (\<lambda>orb body r. 2 * r),
      circularVelocity = (\<lambda>body r. r)\<rparr>"

definition demoBodies :: "ICelestialBody list" where
  "demoBodies = [unitBody, unitBody]"

definition demoSettings :: TrajectoryUserSettings where
  "demoSettings = \<lparr>noInsertion = False, destAltitude = 5, maxDuration = 50\<rparr>"

definition insertionSettings :: TrajectoryUserSettings where
  "insertionSettings = \<lparr>noInsertion = True, destAltitude = 5, maxDuration = 50\<rparr>"

definition demoState0 :: "(real list, nat) WorkerState" where
  "demoState0 = \<lparr>bestTrajectory = None, bestDeltaV = Infinity, newDeltaVs = [], deltaVs = [], rng = 0\<rparr>"

definition demoState1 :: "(real list, nat) WorkerState" where
  "demoState1 = \<lparr>bestTrajectory = Some [100, 10], bestDeltaV = Finite 100, newDeltaVs = [100],
      deltaVs = [], rng = 0\<rparr>"

definition demoState2 :: "(real list, nat) WorkerState" where
  "demoState2 = \<lparr>bestTrajectory = Some [90, 60], bestDeltaV = Finite 90, newDeltaVs = [100, 90],
      deltaVs = [], rng = 0\<rparr>"








definition coarseRounding :: rounding where
  "coarseRounding r = (if 0 \<le> r then 4 * of_int \<lceil>r / 4\<rceil> else - (4 * of_int \<lceil>- r / 4\<rceil>))"

section \<open>Verified properties\<close>

subsection \<open>Orbit: constructor invariants and radius\<close>

text \<open>
  The constructor, read as a function of values: the invariants of the fields it returns.
\<close>

lemma newOrbit_invariants:
  fixes applyAxisAngle :: rotation and data attr anglesToRad
  defines "orb \<equiv> newOrbit applyAxisAngle data attr anglesToRad"
  shows "orbitalParam orb = semiMajorAxis orb * (1 - eccentricity orb ^ 2)
   \<and> meanMotion orb = sqrt (stdGravParam (attractor orb) / \<bar>semiMajorAxis orb\<bar> ^ 3)
   \<and> (periapsis orb \<noteq> None \<longleftrightarrow> eccentricity orb < 1)
   \<and> (apoapsis orb \<noteq> None \<longleftrightarrow> eccentricity orb < 1)
   \<and> (eccentricity orb < 1 \<longrightarrow>
        periapsis orb = Some (semiMajorAxis orb * (1 - eccentricity orb))
      \<and> apoapsis orb = Some (2 * semiMajorAxis orb - semiMajorAxis orb * (1 - eccentricity orb)))
   \<and> ascNodeDir orb
        = applyAxisAngle \<lparr>x = 1, y = 0, z = 0\<rparr> \<lparr>x = 0, y = 1, z = 0\<rparr> (ascNodeLongitude orb)
   \<and> normal orb = applyAxisAngle \<lparr>x = 0, y = 1, z = 0\<rparr> (ascNodeDir orb) (inclination orb)
   \<and> periapsisDir orb = applyAxisAngle (ascNodeDir orb) (normal orb) (argOfPeriapsis orb)"
  unfolding orb_def by (simp add: newOrbit_def Let_def)

text \<open>
  No operation of the class overwrites an object that was in the store before it: each
  writes only to the vectors it has made itself, with \<^verbatim>\<open>new\<close> or \<^verbatim>\<open>clone()\<close>.
\<close>

lemma preserves_refl: "preserves h h"
  by (simp add: preserves_def)

lemma preserves_trans: "preserves h h1 \<Longrightarrow> preserves h1 h2 \<Longrightarrow> preserves h h2"
  by (auto simp: preserves_def)

lemma preserves_newVector3: "preserves h (snd (newVector3 v h))"
  by (simp add: preserves_def newVector3_def)

lemma newVector3_fresh: "fst (newVector3 v h) = nextRef h" "nextRef (snd (newVector3 v h)) = nextRef h + 1"
  by (simp_all add: newVector3_def)

lemma preserves_setVector: "preserves h h1 \<Longrightarrow> nextRef h \<le> r \<Longrightarrow> preserves h (setVector r v h1)"
  by (auto simp: preserves_def setVector_def)

lemma preserves_alloc: "preserves h h1 \<Longrightarrow> preserves h (snd (newVector3 v h1))"
  using preserves_newVector3 by (rule preserves_trans[rotated])

lemma preserves_positionFromTrueAnomalyAt:
  "preserves h (snd (positionFromTrueAnomalyAt applyAxisAngle this nu h))"
  by (simp add: positionFromTrueAnomalyAt_def clone_def newVector3_def applyAxisAngleAt_def
        multiplyScalarAt_def setVector_def preserves_def Let_def)

lemma nextRef_simps [simp]:
  "nextRef (setVector r v h) = nextRef h"
  "nextRef (applyAxisAngleAt applyAxisAngle r axis angle h) = nextRef h"
  "nextRef (multiplyScalarAt r s h) = nextRef h"
  "nextRef (snd (newVector3 v h)) = nextRef h + 1"
  "nextRef (snd (clone r h)) = nextRef h + 1"
  "fst (newVector3 v h) = nextRef h"
  "fst (clone r h) = nextRef h"
  by (simp_all add: setVector_def applyAxisAngleAt_def multiplyScalarAt_def newVector3_def clone_def)

lemma preserves_le: "preserves h h1 \<Longrightarrow> nextRef h \<le> nextRef h1"
  by (simp add: preserves_def)

lemma preserves_applyAxisAngleAt:
  "preserves h h1 \<Longrightarrow> nextRef h \<le> r \<Longrightarrow> preserves h (applyAxisAngleAt applyAxisAngle r axis angle h1)"
  unfolding applyAxisAngleAt_def by (rule preserves_setVector)

lemma preserves_multiplyScalarAt:
  "preserves h h1 \<Longrightarrow> nextRef h \<le> r \<Longrightarrow> preserves h (multiplyScalarAt r s h1)"
  unfolding multiplyScalarAt_def by (rule preserves_setVector)

lemma preserves_clone: "preserves h h1 \<Longrightarrow> preserves h (snd (clone r h1))"
  unfolding clone_def by (rule preserves_alloc)

lemma preserves_velocityFromTrueAnomalyAt:
  "preserves h (snd (velocityFromTrueAnomalyAt applyAxisAngle this nu h))"
  unfolding velocityFromTrueAnomalyAt_def Let_def case_prod_beta snd_conv
  by (intro preserves_applyAxisAngleAt preserves_clone preserves_alloc preserves_setVector
        preserves_newVector3) simp_all

lemma preserves_newOrbitAt:
  "preserves h (snd (newOrbitAt applyAxisAngle data attr anglesToRad h))"
proof -
  have a: "preserves h (h\<lparr>nextRef := nextRef h + 1\<rparr>)" by (simp add: preserves_def)
  have b: "preserves h h1 \<Longrightarrow> preserves h (h1\<lparr>orbitObjects := (orbitObjects h1)(nextRef h := ob)\<rparr>)"
    for h1 ob by (simp add: preserves_def)
  show ?thesis
    unfolding newOrbitAt_def Let_def case_prod_beta snd_conv
    by (intro b preserves_applyAxisAngleAt preserves_clone preserves_alloc a) simp_all
qed

lemma preserves_stateAtDateAt:
  "preserves h (snd (stateAtDateAt applyAxisAngle this meanAnomaly0 epoch date h))"
  unfolding stateAtDateAt_def Let_def case_prod_beta snd_conv
  by (rule preserves_trans[OF preserves_positionFromTrueAnomalyAt preserves_velocityFromTrueAnomalyAt])

lemma preserves_perform: "preserves h (perform applyAxisAngle h op)"
  by (cases op)
     (simp_all add: preserves_refl preserves_newOrbitAt fromOrbitalElementsAt_def
        preserves_positionFromTrueAnomalyAt preserves_velocityFromTrueAnomalyAt
        preserves_stateAtDateAt)

lemma preserves_performAll: "preserves h (performAll applyAxisAngle ops h)"
proof (induction ops arbitrary: h)
  case Nil
  show ?case by (simp add: performAll_def preserves_refl)
next
  case (Cons op ops)
  have "preserves h (perform applyAxisAngle h op)" by (rule preserves_perform)
  moreover have "preserves (perform applyAxisAngle h op)
      (performAll applyAxisAngle ops (perform applyAxisAngle h op))" by (rule Cons.IH)
  ultimately show ?case unfolding performAll_def foldl_Cons by (rule preserves_trans)
qed

lemma preserves_orbitOf:
  assumes "allocated h this" "preserves h h'"
  shows "orbitOf h' this = orbitOf h this" "allocated h' this"
  using assms by (auto simp: allocated_def preserves_def orbitOf_def Let_def)

lemma vectors_simps [simp]:
  "vectors (setVector r v h) = (vectors h)(r := v)"
  "orbitObjects (setVector r v h) = orbitObjects h"
  "orbitObjects (applyAxisAngleAt applyAxisAngle r axis angle h) = orbitObjects h"
  "orbitObjects (multiplyScalarAt r s h) = orbitObjects h"
  "orbitObjects (snd (newVector3 v h)) = orbitObjects h"
  "orbitObjects (snd (clone r h)) = orbitObjects h"
  "vectors (snd (newVector3 v h)) = (vectors h)(nextRef h := v)"
  "vectors (snd (clone r h)) = (vectors h)(nextRef h := vectors h r)"
  "vectors (applyAxisAngleAt applyAxisAngle r axis angle h)
     = (vectors h)(r := applyAxisAngle (vectors h r) (vectors h axis) angle)"
  "vectors (multiplyScalarAt r s h) = (vectors h)(r := multiplyScalar (vectors h r) s)"
  by (simp_all add: setVector_def applyAxisAngleAt_def multiplyScalarAt_def newVector3_def clone_def)

lemma newOrbitAt_orbitOf:
  "orbitOf (snd (newOrbitAt applyAxisAngle data attr anglesToRad h))
           (fst (newOrbitAt applyAxisAngle data attr anglesToRad h))
     = newOrbit applyAxisAngle data attr anglesToRad"
  by (simp add: newOrbitAt_def newOrbit_def orbitOf_def Let_def case_prod_beta)

lemma newOrbitAt_allocated:
  "allocated (snd (newOrbitAt applyAxisAngle data attr anglesToRad h))
             (fst (newOrbitAt applyAxisAngle data attr anglesToRad h))"
  by (simp add: newOrbitAt_def allocated_def Let_def case_prod_beta)

text \<open>
  The vectors that the methods return in the store are those of the functions of values.
\<close>

lemma positionFromTrueAnomalyAt_value:
  assumes "allocated h this"
  shows "vectors (snd (positionFromTrueAnomalyAt applyAxisAngle this nu h))
                 (fst (positionFromTrueAnomalyAt applyAxisAngle this nu h))
           = positionFromTrueAnomaly applyAxisAngle (orbitOf h this) nu"
  using assms
  by (simp add: positionFromTrueAnomalyAt_def positionFromTrueAnomaly_def allocated_def orbitOf_def
        radius_def Let_def case_prod_beta)

lemma velocityFromTrueAnomalyAt_value:
  "vectors (snd (velocityFromTrueAnomalyAt applyAxisAngle this nu h))
           (fst (velocityFromTrueAnomalyAt applyAxisAngle this nu h))
     = velocityFromTrueAnomaly applyAxisAngle (orbitOf h this) nu"
  by (simp add: velocityFromTrueAnomalyAt_def velocityFromTrueAnomaly_def orbitOf_def
        radius_def Let_def case_prod_beta)

lemma positionFromTrueAnomalyAt_fresh:
  "fst (positionFromTrueAnomalyAt applyAxisAngle this nu h) = nextRef h"
  "nextRef (snd (positionFromTrueAnomalyAt applyAxisAngle this nu h)) = nextRef h + 1"
  by (simp_all add: positionFromTrueAnomalyAt_def Let_def case_prod_beta)

lemma stateAtDateAt_value:
  assumes a: "allocated h this"
  shows "(vectors (snd (stateAtDateAt applyAxisAngle this meanAnomaly0 epoch date h))
            (fst (fst (stateAtDateAt applyAxisAngle this meanAnomaly0 epoch date h))),
          vectors (snd (stateAtDateAt applyAxisAngle this meanAnomaly0 epoch date h))
            (snd (fst (stateAtDateAt applyAxisAngle this meanAnomaly0 epoch date h))))
       = stateAtDate applyAxisAngle (orbitOf h this) meanAnomaly0 epoch date"
proof -
  define nu where "nu = solveTrueAnomalyAtDate (orbitOf h this) meanAnomaly0 epoch date"
  define pos where "pos = fst (positionFromTrueAnomalyAt applyAxisAngle this nu h)"
  define h1 where "h1 = snd (positionFromTrueAnomalyAt applyAxisAngle this nu h)"
  define vel where "vel = fst (velocityFromTrueAnomalyAt applyAxisAngle this nu h1)"
  define h2 where "h2 = snd (velocityFromTrueAnomalyAt applyAxisAngle this nu h1)"
  have s: "stateAtDateAt applyAxisAngle this meanAnomaly0 epoch date h = ((pos, vel), h2)"
    unfolding stateAtDateAt_def Let_def case_prod_beta nu_def pos_def h1_def vel_def h2_def ..
  have p1: "preserves h h1" unfolding h1_def by (rule preserves_positionFromTrueAnomalyAt)
  have p2: "preserves h1 h2" unfolding h2_def by (rule preserves_velocityFromTrueAnomalyAt)
  have o1: "orbitOf h1 this = orbitOf h this" using a p1 by (rule preserves_orbitOf)
  have "pos < nextRef h1" unfolding pos_def h1_def positionFromTrueAnomalyAt_fresh by simp
  then have "vectors h2 pos = vectors h1 pos" using p2 unfolding preserves_def by blast
  also have "\<dots> = positionFromTrueAnomaly applyAxisAngle (orbitOf h this) nu"
    unfolding pos_def h1_def using a by (rule positionFromTrueAnomalyAt_value)
  finally have pv: "vectors h2 pos = positionFromTrueAnomaly applyAxisAngle (orbitOf h this) nu" .
  have vv: "vectors h2 vel = velocityFromTrueAnomaly applyAxisAngle (orbitOf h this) nu"
    unfolding vel_def h2_def velocityFromTrueAnomalyAt_value o1 ..
  show ?thesis unfolding s stateAtDate_def Let_def nu_def[symmetric] using pv vv by simp
qed

text \<open>
  The store does not make an orbit immutable by itself: a rotation in place of the
  vector that an orbit refers to changes the orbit.
\<close>

lemma rotation_in_place_changes_orbit:
  "normal (orbitOf (applyAxisAngleAt quarterTurn
              (this_normal (orbitObjects (snd (newOrbitAt quarterTurn ellipticData unitBody True emptyStore)) 0))
              (this_ascNodeDir (orbitObjects (snd (newOrbitAt quarterTurn ellipticData unitBody True emptyStore)) 0))
              0 (snd (newOrbitAt quarterTurn ellipticData unitBody True emptyStore))) 0)
     \<noteq> normal (orbitOf (snd (newOrbitAt quarterTurn ellipticData unitBody True emptyStore)) 0)"
  by (simp add: newOrbitAt_def orbitOf_def emptyStore_def ellipticData_def Let_def case_prod_beta
        quarterTurn_def v3cross_def degToRad_def)

text \<open>
  Claim C7.  Let the constructor make the orbit object \<open>this\<close> in any store, and let
  any operations of the class follow, on this object or on others: constructions, the
  getter \<^verbatim>\<open>data\<close>, \<^verbatim>\<open>solveTrueAnomalyAtDate\<close>, \<^verbatim>\<open>positionFromTrueAnomaly\<close>,
  \<^verbatim>\<open>velocityFromTrueAnomaly\<close>, \<^verbatim>\<open>radius\<close> and \<^verbatim>\<open>stateAtDate\<close>.  Then the fields of the
  object and the three vectors it refers to are what they were when the constructor
  returned, namely the values the constructor computes, and so
  \<open>orbitalParam = semiMajorAxis * (1 - eccentricity\<^sup>2)\<close>,
  \<open>meanMotion = sqrt (stdGravParam / |semiMajorAxis|\<^sup>3)\<close>, the periapsis and apoapsis
  are defined exactly when the eccentricity is below 1, and are then \<open>a (1 - e)\<close> and
  \<open>2 a - a (1 - e)\<close>, and the three direction vectors are the rotations the constructor
  computed.
\<close>

theorem Orbit_invariants_preserved:
  fixes applyAxisAngle :: rotation
  assumes "newOrbitAt applyAxisAngle data attr anglesToRad h0 = (this, h1)"
    and "h = performAll applyAxisAngle ops h1"
  shows "orbitOf h this = orbitOf h1 this
   \<and> orbitOf h this = newOrbit applyAxisAngle data attr anglesToRad
   \<and> orbitalParam (orbitOf h this)
        = semiMajorAxis (orbitOf h this) * (1 - eccentricity (orbitOf h this) ^ 2)
   \<and> meanMotion (orbitOf h this)
        = sqrt (stdGravParam (attractor (orbitOf h this)) / \<bar>semiMajorAxis (orbitOf h this)\<bar> ^ 3)
   \<and> (periapsis (orbitOf h this) \<noteq> None \<longleftrightarrow> eccentricity (orbitOf h this) < 1)
   \<and> (apoapsis (orbitOf h this) \<noteq> None \<longleftrightarrow> eccentricity (orbitOf h this) < 1)
   \<and> (eccentricity (orbitOf h this) < 1 \<longrightarrow>
        periapsis (orbitOf h this)
          = Some (semiMajorAxis (orbitOf h this) * (1 - eccentricity (orbitOf h this)))
      \<and> apoapsis (orbitOf h this)
          = Some (2 * semiMajorAxis (orbitOf h this)
                  - semiMajorAxis (orbitOf h this) * (1 - eccentricity (orbitOf h this))))
   \<and> ascNodeDir (orbitOf h this)
        = applyAxisAngle \<lparr>x = 1, y = 0, z = 0\<rparr> \<lparr>x = 0, y = 1, z = 0\<rparr>
            (ascNodeLongitude (orbitOf h this))
   \<and> normal (orbitOf h this)
        = applyAxisAngle \<lparr>x = 0, y = 1, z = 0\<rparr> (ascNodeDir (orbitOf h this))
            (inclination (orbitOf h this))
   \<and> periapsisDir (orbitOf h this)
        = applyAxisAngle (ascNodeDir (orbitOf h this)) (normal (orbitOf h this))
            (argOfPeriapsis (orbitOf h this))"
proof -
  have t0: "this = fst (newOrbitAt applyAxisAngle data attr anglesToRad h0)"
    and h1: "h1 = snd (newOrbitAt applyAxisAngle data attr anglesToRad h0)"
    using assms(1) by simp_all
  have a: "allocated h1 this" unfolding t0 h1 by (rule newOrbitAt_allocated)
  have v: "orbitOf h1 this = newOrbit applyAxisAngle data attr anglesToRad"
    unfolding t0 h1 by (rule newOrbitAt_orbitOf)
  have p: "preserves h1 h" unfolding assms(2) by (rule preserves_performAll)
  have same: "orbitOf h this = orbitOf h1 this" using a p by (rule preserves_orbitOf)
  have new: "orbitOf h this = newOrbit applyAxisAngle data attr anglesToRad"
    unfolding same v ..
  show ?thesis
    using newOrbit_invariants[of applyAxisAngle data attr anglesToRad] same
    unfolding new[symmetric] by simp
qed

lemma demo_construct: "fst (newOrbitAt quarterTurn ellipticData unitBody True emptyStore) = 0"
  by (simp add: newOrbitAt_def emptyStore_def Let_def case_prod_beta)

theorem Orbit_invariants_preserved_witness:
  "fst (newOrbitAt quarterTurn ellipticData unitBody True emptyStore) = 0
   \<and> orbitOf (performAll quarterTurn demoOperations
                (snd (newOrbitAt quarterTurn ellipticData unitBody True emptyStore))) 0
       = newOrbit quarterTurn ellipticData unitBody True
   \<and> periapsis (orbitOf (performAll quarterTurn demoOperations
                (snd (newOrbitAt quarterTurn ellipticData unitBody True emptyStore))) 0) = Some 5
   \<and> apoapsis (orbitOf (performAll quarterTurn demoOperations
                (snd (newOrbitAt quarterTurn ellipticData unitBody True emptyStore))) 0) = Some 15
   \<and> normal (orbitOf (performAll quarterTurn demoOperations
                (snd (newOrbitAt quarterTurn ellipticData unitBody True emptyStore))) 0)
       = \<lparr>x = 1, y = 0, z = 0\<rparr>"
proof -
  let ?h1 = "snd (newOrbitAt quarterTurn ellipticData unitBody True emptyStore)"
  let ?h = "performAll quarterTurn demoOperations ?h1"
  have c: "newOrbitAt quarterTurn ellipticData unitBody True emptyStore = (0, ?h1)"
    using demo_construct by (simp add: prod_eq_iff)
  note t = Orbit_invariants_preserved[OF c refl, of demoOperations]
  have new: "orbitOf ?h 0 = newOrbit quarterTurn ellipticData unitBody True"
    using t by (elim conjE)
  have f: "periapsis (newOrbit quarterTurn ellipticData unitBody True) = Some 5"
    "apoapsis (newOrbit quarterTurn ellipticData unitBody True) = Some 15"
    "normal (newOrbit quarterTurn ellipticData unitBody True) = \<lparr>x = 1, y = 0, z = 0\<rparr>"
    by (simp_all add: newOrbit_def ellipticData_def Let_def quarterTurn_def v3cross_def degToRad_def)
  show ?thesis using demo_construct new f unfolding new by (intro conjI) simp_all
qed

text \<open>
  Claim C9.  For an orbit built from an eccentricity strictly between 0 and 1, the radius
  at true anomaly 0 is the periapsis field and the radius at true anomaly \<open>\<pi>\<close> is the
  apoapsis field, exactly.
\<close>

theorem radius_periapsis_apoapsis:
  assumes "0 < d_eccentricity data" "d_eccentricity data < 1"
  shows "periapsis (newOrbit applyAxisAngle data attr anglesToRad)
           = Some (radius (newOrbit applyAxisAngle data attr anglesToRad) 0)
     \<and> apoapsis (newOrbit applyAxisAngle data attr anglesToRad)
           = Some (radius (newOrbit applyAxisAngle data attr anglesToRad) pi)"
proof -
  let ?e = "d_eccentricity data" and ?a = "d_semiMajorAxis data"
  have p: "1 + ?e \<noteq> 0" "1 - ?e \<noteq> 0" using assms by auto
  have f: "1 - ?e ^ 2 = (1 - ?e) * (1 + ?e)" by (simp add: power2_eq_square algebra_simps)
  have r0: "?a * (1 - ?e ^ 2) / (1 + ?e) = ?a * (1 - ?e)"
    using p by (simp add: f)
  have "?a * (1 - ?e ^ 2) / (1 - ?e) = ?a * (1 + ?e)"
    using p by (simp add: f)
  then have r1: "?a * (1 - ?e ^ 2) / (1 - ?e) = 2 * ?a - ?a * (1 - ?e)"
    by (simp add: algebra_simps)
  show ?thesis using assms r0 r1 by (simp add: newOrbit_def Let_def radius_def)
qed

theorem radius_periapsis_apoapsis_witness:
  "periapsis ellipticOrbit = Some (radius ellipticOrbit 0)
   \<and> apoapsis ellipticOrbit = Some (radius ellipticOrbit pi)"
  using radius_periapsis_apoapsis[of
      "\<lparr>d_semiMajorAxis = 10, d_eccentricity = 1/2, d_inclination = 0,
        d_argOfPeriapsis = 0, d_ascNodeLongitude = 0\<rparr>" noRotation unitBody True]
  unfolding ellipticOrbit_def[symmetric] by simp

subsection \<open>The Newton iteration stops\<close>

lemma newtonLoop_iter:
  "\<exists>k. newtonLoop f df s = (newtonStep f df ^^ k) s
     \<and> \<not> newtonContinue ((newtonStep f df ^^ k) s)
     \<and> (\<forall>j<k. newtonContinue ((newtonStep f df ^^ j) s))"
proof (induction f df s rule: newtonLoop.induct)
  case (1 f df s)
  show ?case
  proof (cases "newtonContinue s")
    case False
    then have "newtonLoop f df s = (newtonStep f df ^^ 0) s
       \<and> \<not> newtonContinue ((newtonStep f df ^^ 0) s)
       \<and> (\<forall>j<0. newtonContinue ((newtonStep f df ^^ j) s))"
      by (simp add: newtonLoop.simps[of f df s])
    then show ?thesis by blast
  next
    case True
    from 1[OF True] obtain k where k:
      "newtonLoop f df (newtonStep f df s) = (newtonStep f df ^^ k) (newtonStep f df s)"
      "\<not> newtonContinue ((newtonStep f df ^^ k) (newtonStep f df s))"
      "\<forall>j<k. newtonContinue ((newtonStep f df ^^ j) (newtonStep f df s))" by blast
    have a: "newtonLoop f df s = (newtonStep f df ^^ Suc k) s"
      using True k(1) by (simp add: funpow_swap1 newtonLoop.simps[of f df s])
    have b: "\<not> newtonContinue ((newtonStep f df ^^ Suc k) s)"
      using k(2) by (simp add: funpow_swap1)
    have c: "\<forall>j<Suc k. newtonContinue ((newtonStep f df ^^ j) s)"
    proof (intro allI impI)
      fix j assume "j < Suc k"
      show "newtonContinue ((newtonStep f df ^^ j) s)"
      proof (cases j)
        case 0 then show ?thesis using True by simp
      next
        case (Suc i)
        then have "i < k" using \<open>j < Suc k\<close> by simp
        then show ?thesis using k(3) Suc by (simp add: funpow_swap1)
      qed
    qed
    from a b c show ?thesis by blast
  qed
qed

lemma newtonStep_count: "snd (snd ((newtonStep f df ^^ k) s)) = snd (snd s) + k"
  by (induction k) (auto simp: newtonStep_def split: prod.splits)

lemma newtonIterate_count: "snd (snd (newtonIterate f df M k)) = k"
  by (simp add: newtonIterate_def newtonStep_count newtonInit_def)

lemma newtonContinue_iff:
  "newtonContinue s \<longleftrightarrow> newtonDelta s > newtonTol \<and> snd (snd s) < 1000"
  by (simp add: newtonContinue_def newtonDelta_def split: prod.splits)

lemma newton_stops:
  "\<exists>k\<le>1000. newtonStopsAt f df M k \<and> newton f df M = fst (snd (newtonIterate f df M k))"
proof -
  obtain k where k:
    "newtonLoop f df (newtonInit f df M) = newtonIterate f df M k"
    "\<not> newtonContinue (newtonIterate f df M k)"
    "\<forall>j<k. newtonContinue (newtonIterate f df M j)"
    using newtonLoop_iter[of f df "newtonInit f df M"] unfolding newtonIterate_def
    by (elim exE conjE)
  have le: "k \<le> 1000"
  proof (rule ccontr)
    assume "\<not> k \<le> 1000"
    then have "1000 < k" by simp
    then have "newtonContinue (newtonIterate f df M 1000)" using k(3) by (elim allE impE)
    then have "snd (snd (newtonIterate f df M 1000)) < 1000"
      unfolding newtonContinue_iff by (rule conjunct2)
    then show False unfolding newtonIterate_count by simp
  qed
  have before: "\<forall>j<k. newtonDelta (newtonIterate f df M j) > newtonTol"
    using k(3) unfolding newtonContinue_iff by simp
  have "\<not> (newtonDelta (newtonIterate f df M k) > newtonTol \<and> k < 1000)"
    using k(2) unfolding newtonContinue_iff newtonIterate_count .
  then have at: "newtonDelta (newtonIterate f df M k) \<le> newtonTol \<or> k = 1000"
    using le by linarith
  have res: "newton f df M = fst (snd (newtonIterate f df M k))"
    unfolding newton_def k(1) ..
  have "newtonStopsAt f df M k" unfolding newtonStopsAt_def using before at by (rule conjI)
  with le res show ?thesis by (intro exI conjI)
qed

text \<open>
  Claim C4.  \<^verbatim>\<open>solveTrueAnomalyAtDate\<close> is a total function with no error value.  On
  either branch the Newton loop, started from \<open>prevX = M\<close>, makes some number
  \<open>k \<le> 1000\<close> of passes: the test \<open>|x - prevX| > 1e-15\<close> held before each of them,
  and after them either \<open>|x - prevX| \<le> 1e-15\<close> or \<open>k = 1000\<close>.  The value returned is
  the half-angle conversion of the iterate \<open>x\<close> of that state, with \<open>tan\<close> for
  \<open>e < 1\<close> and \<open>tanh\<close> otherwise.
\<close>

theorem solveTrueAnomalyAtDate_terminates:
  fixes orb :: Orbit
  shows
  "(eccentricity orb < 1 \<longrightarrow>
      (\<exists>k\<le>1000.
          newtonStopsAt (keplerEll (eccentricity orb) (meanAnomalyAt orb M0 epoch date))
             (keplerEll' (eccentricity orb)) (meanAnomalyAt orb M0 epoch date) k
        \<and> solveTrueAnomalyAtDate orb M0 epoch date =
            2 * arctan (sqrt ((1 + eccentricity orb) / (1 - eccentricity orb))
              * tan (fst (snd (newtonIterate
                   (keplerEll (eccentricity orb) (meanAnomalyAt orb M0 epoch date))
                   (keplerEll' (eccentricity orb)) (meanAnomalyAt orb M0 epoch date) k)) * (1/2)))))
 \<and> (\<not> eccentricity orb < 1 \<longrightarrow>
      (\<exists>k\<le>1000.
          newtonStopsAt (keplerHyp (eccentricity orb) (meanAnomalyAt orb M0 epoch date))
             (keplerHyp' (eccentricity orb)) (meanAnomalyAt orb M0 epoch date) k
        \<and> solveTrueAnomalyAtDate orb M0 epoch date =
            2 * arctan (sqrt ((eccentricity orb + 1) / (eccentricity orb - 1))
              * tanh (fst (snd (newtonIterate
                   (keplerHyp (eccentricity orb) (meanAnomalyAt orb M0 epoch date))
                   (keplerHyp' (eccentricity orb)) (meanAnomalyAt orb M0 epoch date) k)) * (1/2)))))"
proof (intro conjI impI)
  let ?e = "eccentricity orb" and ?M = "meanAnomalyAt orb M0 epoch date"
  assume e: "?e < 1"
  obtain k where k: "k \<le> 1000" "newtonStopsAt (keplerEll ?e ?M) (keplerEll' ?e) ?M k"
     "newton (keplerEll ?e ?M) (keplerEll' ?e) ?M
        = fst (snd (newtonIterate (keplerEll ?e ?M) (keplerEll' ?e) ?M k))"
    using newton_stops[of "keplerEll ?e ?M" "keplerEll' ?e" ?M] by (elim exE conjE)
  have "solveTrueAnomalyAtDate orb M0 epoch date =
     2 * arctan (sqrt ((1 + ?e) / (1 - ?e))
        * tan (fst (snd (newtonIterate (keplerEll ?e ?M) (keplerEll' ?e) ?M k)) * (1/2)))"
    unfolding solveTrueAnomalyAtDate_def Let_def k(3) using e by simp
  with k(1,2) show "\<exists>k\<le>1000.
          newtonStopsAt (keplerEll ?e ?M) (keplerEll' ?e) ?M k
        \<and> solveTrueAnomalyAtDate orb M0 epoch date =
            2 * arctan (sqrt ((1 + ?e) / (1 - ?e))
              * tan (fst (snd (newtonIterate (keplerEll ?e ?M) (keplerEll' ?e) ?M k)) * (1/2)))"
    by blast
next
  let ?e = "eccentricity orb" and ?M = "meanAnomalyAt orb M0 epoch date"
  assume e: "\<not> ?e < 1"
  obtain k where k: "k \<le> 1000" "newtonStopsAt (keplerHyp ?e ?M) (keplerHyp' ?e) ?M k"
     "newton (keplerHyp ?e ?M) (keplerHyp' ?e) ?M
        = fst (snd (newtonIterate (keplerHyp ?e ?M) (keplerHyp' ?e) ?M k))"
    using newton_stops[of "keplerHyp ?e ?M" "keplerHyp' ?e" ?M] by (elim exE conjE)
  have "solveTrueAnomalyAtDate orb M0 epoch date =
     2 * arctan (sqrt ((?e + 1) / (?e - 1))
        * tanh (fst (snd (newtonIterate (keplerHyp ?e ?M) (keplerHyp' ?e) ?M k)) * (1/2)))"
    unfolding solveTrueAnomalyAtDate_def Let_def k(3) using e by simp
  with k(1,2) show "\<exists>k\<le>1000.
          newtonStopsAt (keplerHyp ?e ?M) (keplerHyp' ?e) ?M k
        \<and> solveTrueAnomalyAtDate orb M0 epoch date =
            2 * arctan (sqrt ((?e + 1) / (?e - 1))
              * tanh (fst (snd (newtonIterate (keplerHyp ?e ?M) (keplerHyp' ?e) ?M k)) * (1/2)))"
    by blast
qed

lemma circ_fields: "eccentricity circularOrbit = 0" "meanMotion circularOrbit = 1"
  by (simp_all add: circularOrbit_def newOrbit_def Let_def unitBody_def)





theorem solveTrueAnomalyAtDate_terminates_witness:
  "eccentricity circularOrbit < 1
   \<and> solveTrueAnomalyAtDate circularOrbit 4 0 0 = 2 * arctan (tan 2)"
proof -
  let ?M = "meanAnomalyAt circularOrbit 4 0 0"
  have M: "?M = 4" by (simp add: meanAnomalyAt_def circ_fields)
  have e: "eccentricity circularOrbit < 1" by (simp add: circ_fields)
  from solveTrueAnomalyAtDate_terminates[of circularOrbit 4 0 0] e
  obtain k where k: "newtonStopsAt (keplerEll 0 4) (keplerEll' 0) 4 k"
    "solveTrueAnomalyAtDate circularOrbit 4 0 0 =
       2 * arctan (sqrt ((1 + 0) / (1 - 0))
         * tan (fst (snd (newtonIterate (keplerEll 0 4) (keplerEll' 0) 4 k)) * (1/2)))"
    unfolding M circ_fields by blast
  have d0: "newtonDelta (newtonIterate (keplerEll 0 4) (keplerEll' 0) 4 0) = 0"
    by (simp add: newtonDelta_def newtonIterate_def newtonInit_def keplerEll_def keplerEll'_def)
  have "k = 0"
  proof (rule ccontr)
    assume "k \<noteq> 0"
    then have "0 < k" by simp
    with k(1) have "newtonDelta (newtonIterate (keplerEll 0 4) (keplerEll' 0) 4 0) > newtonTol"
      unfolding newtonStopsAt_def by blast
    then show False by (simp add: d0 newtonTol_def)
  qed
  then have x: "fst (snd (newtonIterate (keplerEll 0 4) (keplerEll' 0) 4 k)) = 4"
    by (simp add: newtonIterate_def newtonInit_def keplerEll_def keplerEll'_def)
  have "solveTrueAnomalyAtDate circularOrbit 4 0 0 = 2 * arctan (tan 2)"
    unfolding k(2) x by simp
  with e show ?thesis by (rule_tac conjI)
qed

subsection \<open>The round trip through the mean anomaly\<close>

































subsection \<open>FlybySequence.fromString rejects malformed input\<close>

lemmas demo_defs = demoSystem_def kerbin_def duna_def mun_def mkBody_def sun_def matchBody_def
  substring02_def fromString_def trim_def isWhiteSpace_def ICelestialBody.truncate_def
  utf16_def hyphen_def

lemma fromString_accepts_example: "fromString (utf16 '' Ke-Du  '') demoSystem = Inr [3, 6]"
  by (simp add: demo_defs)

lemma fromString_trims_no_break_space:
  "fromString (0x00A0 # utf16 ''Ke-Du'' @ [0x2003, 0xFEFF]) demoSystem = Inr [3, 6]"
  by (simp add: demo_defs)

lemma parseInitials_all_match:
  "parseInitials orbiting initials i attr ids = Inr r \<Longrightarrow>
     \<forall>t\<in>set initials. matchBody orbiting t \<noteq> None"
  by (induction initials arbitrary: i attr ids) (auto split: option.splits if_splits)

lemma parseInitials_same_attractor:
  "parseInitials orbiting initials (Suc i) attr ids = Inr r \<Longrightarrow>
     \<forall>t\<in>set initials. \<forall>b. matchBody orbiting t = Some b \<longrightarrow> bodyId (ob_attractor b) = attr"
  by (induction initials arbitrary: i ids) (auto split: option.splits if_splits)

lemma parseInitials_length:
  "parseInitials orbiting initials i attr ids = Inr r \<Longrightarrow> length r = length ids + length initials"
  by (induction initials arbitrary: i attr ids) (auto split: option.splits if_splits)

lemma parseInitials_first:
  assumes "parseInitials orbiting initials 0 attr [] = Inr r"
  shows "\<exists>a. \<forall>t\<in>set initials. \<forall>b. matchBody orbiting t = Some b \<longrightarrow> bodyId (ob_attractor b) = a"
proof (cases initials)
  case Nil
  then show ?thesis by simp
next
  case (Cons t rest)
  with assms obtain b where b: "matchBody orbiting t = Some b"
    and rec: "parseInitials orbiting rest (Suc 0) (bodyId (ob_attractor b)) [bodyId b] = Inr r"
    by (auto split: option.splits)
  from parseInitials_same_attractor[OF rec] b Cons
  have "\<forall>t\<in>set initials. \<forall>b'. matchBody orbiting t = Some b' \<longrightarrow> bodyId (ob_attractor b') = bodyId (ob_attractor b)"
    by auto
  then show ?thesis by (rule exI)
qed

lemma errorMessage_nonempty: "errorMessage err \<noteq> []"
  by (cases err) (simp_all add: errorMessage_def)

text \<open>
  Claim C5.  \<^verbatim>\<open>fromString\<close> returns an error, with a message, whenever the trimmed string
  splits into fewer than two tokens, or some token is the initials of no body, or two
  tokens select bodies whose attractors differ.  The result is then no sequence of ids,
  so no \<^verbatim>\<open>FlybySequence\<close> is built and nothing is handed to the search.
\<close>

theorem fromString_rejects:
  assumes "length (split hyphen (trim str)) < 2
     \<or> (\<exists>t\<in>set (split hyphen (trim str)). matchBody orbiting t = None)
     \<or> (\<exists>t1\<in>set (split hyphen (trim str)). \<exists>t2\<in>set (split hyphen (trim str)).
          \<exists>b1 b2. matchBody orbiting t1 = Some b1 \<and> matchBody orbiting t2 = Some b2
             \<and> bodyId (ob_attractor b1) \<noteq> bodyId (ob_attractor b2))"
  shows "\<exists>err. fromString str orbiting = Inl err \<and> errorMessage err \<noteq> []"
proof (rule ccontr)
  assume "\<not> (\<exists>err. fromString str orbiting = Inl err \<and> errorMessage err \<noteq> [])"
  then obtain ids where ok: "fromString str orbiting = Inr ids"
    using errorMessage_nonempty by (cases "fromString str orbiting") auto
  let ?toks = "split hyphen (trim str)"
  from ok have p: "parseInitials orbiting ?toks 0 0 [] = Inr ids" and len: "\<not> length ids \<le> 1"
    by (auto simp: fromString_def split: sum.splits if_splits)
  have l: "length ids = length ?toks" using parseInitials_length[OF p] by simp
  have m: "\<forall>t\<in>set ?toks. matchBody orbiting t \<noteq> None" by (rule parseInitials_all_match[OF p])
  obtain a where a: "\<forall>t\<in>set ?toks. \<forall>b. matchBody orbiting t = Some b \<longrightarrow> bodyId (ob_attractor b) = a"
    using parseInitials_first[OF p] by (elim exE)
  from assms show False
  proof (elim disjE)
    assume "length ?toks < 2" with l len show False by simp
  next
    assume "\<exists>t\<in>set ?toks. matchBody orbiting t = None" with m show False by blast
  next
    assume "\<exists>t1\<in>set ?toks. \<exists>t2\<in>set ?toks.
          \<exists>b1 b2. matchBody orbiting t1 = Some b1 \<and> matchBody orbiting t2 = Some b2
             \<and> bodyId (ob_attractor b1) \<noteq> bodyId (ob_attractor b2)"
    with a show False by metis
  qed
qed

theorem fromString_rejects_witness:
  "(\<exists>err. fromString (utf16 ''Ke'') demoSystem = Inl err \<and> errorMessage err \<noteq> [])
   \<and> (\<exists>err. fromString (utf16 ''Ke-Xx'') demoSystem = Inl err \<and> errorMessage err \<noteq> [])
   \<and> (\<exists>err. fromString (utf16 ''Ke-Mu'') demoSystem = Inl err \<and> errorMessage err \<noteq> [])"
proof -
  have short: "length (split hyphen (trim (utf16 ''Ke''))) < 2"
    by (simp add: trim_def isWhiteSpace_def utf16_def hyphen_def)
  have unknown: "\<exists>t\<in>set (split hyphen (trim (utf16 ''Ke-Xx''))). matchBody demoSystem t = None"
    by (simp add: demo_defs)
  have k: "matchBody demoSystem (utf16 ''Ke'') = Some kerbin"
    and m: "matchBody demoSystem (utf16 ''Mu'') = Some mun"
    by (simp_all add: demo_defs)
  have a: "bodyId (ob_attractor kerbin) \<noteq> bodyId (ob_attractor mun)"
    by (simp add: demo_defs)
  have toks: "utf16 ''Ke'' \<in> set (split hyphen (trim (utf16 ''Ke-Mu'')))"
    "utf16 ''Mu'' \<in> set (split hyphen (trim (utf16 ''Ke-Mu'')))"
    by (simp_all add: trim_def isWhiteSpace_def utf16_def hyphen_def)
  have differ: "\<exists>t1\<in>set (split hyphen (trim (utf16 ''Ke-Mu''))).
        \<exists>t2\<in>set (split hyphen (trim (utf16 ''Ke-Mu''))).
          \<exists>b1 b2. matchBody demoSystem t1 = Some b1 \<and> matchBody demoSystem t2 = Some b2
             \<and> bodyId (ob_attractor b1) \<noteq> bodyId (ob_attractor b2)"
    using toks k m a by blast
  have 1: "\<exists>err. fromString (utf16 ''Ke'') demoSystem = Inl err \<and> errorMessage err \<noteq> []"
    by (rule fromString_rejects) (rule disjI1, rule short)
  have 2: "\<exists>err. fromString (utf16 ''Ke-Xx'') demoSystem = Inl err \<and> errorMessage err \<noteq> []"
    by (rule fromString_rejects) (rule disjI2, rule disjI1, rule unknown)
  have 3: "\<exists>err. fromString (utf16 ''Ke-Mu'') demoSystem = Inl err \<and> errorMessage err \<noteq> []"
    by (rule fromString_rejects) (rule disjI2, rule disjI2, rule differ)
  from 1 2 3 show ?thesis by (intro conjI)
qed

subsection \<open>The dimension of an agent\<close>

text \<open>
  Claim C8, as stated, fails: with \<open>legs\<close> one fewer than the number of bodies, the worker
  computes \<open>3 + 4 * legs - 2\<close>, not \<open>3 + 4 * (legs - 1) - 2\<close>.  For two bodies the
  dimension is 5, and the stated formula gives 1.
\<close>

theorem agentDim_counterexample:
  "numLegs [3, 6] = 1 \<and> agentDim [3, 6] = 5
   \<and> \<not> agentDim [3, 6] = 3 + 4 * (numLegs [3, 6] - 1) - 2"
  by (simp add: agentDim_def numLegs_def)

text \<open>
  Claim C8, amended.  The dimension of an agent is \<open>3 + 4 * legs - 2\<close>, where \<open>legs\<close> is
  one fewer than the number of bodies of the sequence.
\<close>

theorem agentDim_formula:
  "agentDim sequence = 3 + 4 * numLegs sequence - 2
   \<and> numLegs sequence = int (length sequence) - 1"
  by (simp add: agentDim_def numLegs_def)

subsection \<open>The retry loop of \<^verbatim>\<open>_computeTrajectory\<close>\<close>

lemma computeLoop_unfold:
  "computeLoop lib settings trajectory agent g n m =
     (if n < m then
        (if attemptFailed lib settings (trajectory, agent, g) then
           (case retry lib settings (trajectory, agent, g) of
              (t, a, h) \<Rightarrow> computeLoop lib settings t a h (n + 1) m)
         else Inr (attemptResult lib settings (trajectory, agent, g)))
      else Inl ImpossibleToCompute)"
  by (subst computeLoop.simps) (simp add: attemptFailed_def retry_def attemptResult_def Let_def case_prod_beta)

lemma loopFrom_unfold:
  "loopFrom lib settings s n m =
     (if n < m then
        (if attemptFailed lib settings s then loopFrom lib settings (retry lib settings s) (n + 1) m
         else Inr (attemptResult lib settings s))
      else Inl ImpossibleToCompute)"
proof (cases s)
  case (fields t a h)
  show ?thesis unfolding fields loopFrom_def prod.case
    by (subst computeLoop_unfold) (simp split: prod.splits)
qed

lemma loopFrom_skip:
  "(\<forall>j<k. attemptFailed lib settings ((retry lib settings ^^ j) s)) \<Longrightarrow> n + k \<le> m \<Longrightarrow>
     loopFrom lib settings s n m = loopFrom lib settings ((retry lib settings ^^ k) s) (n + k) m"
proof (induction k arbitrary: s n)
  case 0
  then show ?case by simp
next
  case (Suc k)
  have f0: "attemptFailed lib settings s" using Suc.prems(1) by (elim allE[of _ 0]) simp
  have rest: "\<forall>j<k. attemptFailed lib settings ((retry lib settings ^^ j) (retry lib settings s))"
  proof (intro allI impI)
    fix j assume "j < k"
    then have "Suc j < Suc k" by simp
    with Suc.prems(1) have "attemptFailed lib settings ((retry lib settings ^^ Suc j) s)" by blast
    then show "attemptFailed lib settings ((retry lib settings ^^ j) (retry lib settings s))"
      by (simp add: funpow_swap1)
  qed
  have "n < m" using Suc.prems(2) by simp
  then have "loopFrom lib settings s n m = loopFrom lib settings (retry lib settings s) (n + 1) m"
    using f0 by (subst loopFrom_unfold) simp
  also have "\<dots> = loopFrom lib settings ((retry lib settings ^^ k) (retry lib settings s)) (n + 1 + k) m"
    using rest Suc.prems(2) by (intro Suc.IH) simp_all
  finally show ?case by (simp add: funpow_swap1)
qed

lemma loopFrom_all_fail:
  assumes "\<forall>j<m. attemptFailed lib settings ((retry lib settings ^^ j) s)"
  shows "loopFrom lib settings s 0 m = Inl ImpossibleToCompute"
proof -
  have "loopFrom lib settings s 0 m = loopFrom lib settings ((retry lib settings ^^ m) s) (0 + m) m"
    using assms by (intro loopFrom_skip) simp_all
  also have "\<dots> = Inl ImpossibleToCompute" by (subst loopFrom_unfold) simp
  finally show ?thesis .
qed

lemma loopFrom_first_success:
  assumes "\<forall>j<k. attemptFailed lib settings ((retry lib settings ^^ j) s)"
    and "\<not> attemptFailed lib settings ((retry lib settings ^^ k) s)" and "k < m"
  shows "loopFrom lib settings s 0 m = Inr (attemptResult lib settings ((retry lib settings ^^ k) s))"
proof -
  have "loopFrom lib settings s 0 m = loopFrom lib settings ((retry lib settings ^^ k) s) (0 + k) m"
    using assms(1,3) by (intro loopFrom_skip) simp_all
  also have "\<dots> = Inr (attemptResult lib settings ((retry lib settings ^^ k) s))"
    using assms(2,3) by (subst loopFrom_unfold) simp
  finally show ?thesis .
qed

lemma loopFrom_fatal_iff:
  "loopFrom lib settings s 0 m = Inl ImpossibleToCompute
     \<longleftrightarrow> (\<forall>j<m. attemptFailed lib settings ((retry lib settings ^^ j) s))"
proof
  assume fatal: "loopFrom lib settings s 0 m = Inl ImpossibleToCompute"
  show "\<forall>j<m. attemptFailed lib settings ((retry lib settings ^^ j) s)"
  proof (rule ccontr)
    assume "\<not> (\<forall>j<m. attemptFailed lib settings ((retry lib settings ^^ j) s))"
    then obtain j where j: "j < m" "\<not> attemptFailed lib settings ((retry lib settings ^^ j) s)" by blast
    define k where "k = (LEAST i. \<not> attemptFailed lib settings ((retry lib settings ^^ i) s))"
    have k1: "\<not> attemptFailed lib settings ((retry lib settings ^^ k) s)"
      unfolding k_def using j(2) by (rule LeastI)
    have k2: "\<forall>i<k. attemptFailed lib settings ((retry lib settings ^^ i) s)"
      unfolding k_def using not_less_Least by blast
    have "k \<le> j" unfolding k_def using j(2) by (rule Least_le)
    then have "k < m" using j(1) by simp
    from loopFrom_first_success[OF k2 k1 this] fatal show False by simp
  qed
next
  assume "\<forall>j<m. attemptFailed lib settings ((retry lib settings ^^ j) s)"
  then show "loopFrom lib settings s 0 m = Inl ImpossibleToCompute" by (rule loopFrom_all_fail)
qed

lemma computeTrajectory_loopFrom:
  "computeTrajectory lib settings agent g m = loopFrom lib settings (newCalculator lib, agent, g) 0 m"
  by (simp add: computeTrajectory_def loopFrom_def)

text \<open>
  Claim C2.  With the default of 1000 attempts, \<^verbatim>\<open>_computeTrajectory\<close> throws
  \<^verbatim>\<open>"Impossible to compute the trajectory."\<close> exactly when each of the 1000 attempts
  fails (it throws, or its steps hold a NaN), each attempt being made after the agent
  was re-randomized and the calculator reset by the one before.  If attempt \<open>k < 1000\<close>
  is the first that does not fail, its trajectory is returned, with the agent it was
  computed from: no further attempt is made.
\<close>

theorem computeTrajectory_retries:
  "(computeTrajectory lib settings agent g 1000 = Inl ImpossibleToCompute
      \<longleftrightarrow> (\<forall>k<1000. attemptFailed lib settings (afterFailures lib settings agent g k)))
   \<and> (\<forall>k<1000. (\<forall>j<k. attemptFailed lib settings (afterFailures lib settings agent g j))
          \<and> \<not> attemptFailed lib settings (afterFailures lib settings agent g k)
        \<longrightarrow> computeTrajectory lib settings agent g 1000
              = Inr (attemptResult lib settings (afterFailures lib settings agent g k)))"
  unfolding computeTrajectory_loopFrom afterFailures_def
  using loopFrom_fatal_iff[of lib settings "(newCalculator lib, agent, g)" 1000]
        loopFrom_first_success[of _ lib settings "(newCalculator lib, agent, g)" 1000]
  by (intro conjI allI impI) (assumption, elim conjE, assumption)

lemma demo_attempt_ok:
  "0 \<le> a \<Longrightarrow> \<not> attemptFailed demoLib settings (c, [a, b], g)"
  by (simp add: attemptFailed_def tryCompute_def demoLib_def)

lemma demo_attempt_fail:
  "a < 0 \<Longrightarrow> attemptFailed demoLib settings (c, [a, b], g)"
  by (simp add: attemptFailed_def tryCompute_def demoLib_def)

lemma demo_compute_ok:
  assumes "0 \<le> a"
  shows "computeTrajectory demoLib settings [a, b] g 1000 = Inr ([a, b], [a, b], g)"
proof -
  have "\<forall>j<0::nat. attemptFailed demoLib settings ((retry demoLib settings ^^ j) (newCalculator demoLib, [a, b], g))"
    by simp
  moreover have "\<not> attemptFailed demoLib settings ((retry demoLib settings ^^ 0) (newCalculator demoLib, [a, b], g))"
    using assms by (simp add: demo_attempt_ok)
  moreover have "(0::nat) < 1000" by simp
  ultimately have "loopFrom demoLib settings (newCalculator demoLib, [a, b], g) 0 1000
      = Inr (attemptResult demoLib settings ((retry demoLib settings ^^ 0) (newCalculator demoLib, [a, b], g)))"
    by (rule loopFrom_first_success)
  then show ?thesis using assms
    by (simp add: computeTrajectory_loopFrom attemptResult_def tryCompute_def demoLib_def)
qed

theorem computeTrajectory_retries_witness:
  "attemptFailed demoLib demoSettings (afterFailures demoLib demoSettings [-1, 0] 0 0)
   \<and> \<not> attemptFailed demoLib demoSettings (afterFailures demoLib demoSettings [-1, 0] 0 1)
   \<and> computeTrajectory demoLib demoSettings [-1, 0] 0 1000 = Inr ([50, 20], [50, 20], 1)"
proof -
  have s0: "afterFailures demoLib demoSettings [-1, 0] 0 0 = ([], [-1, 0], 0)"
    by (simp add: afterFailures_def demoLib_def)
  have s1: "afterFailures demoLib demoSettings [-1, 0] 0 1 = ([], [50, 20], 1)"
    by (simp add: afterFailures_def retry_def demoLib_def)
  have f0: "attemptFailed demoLib demoSettings (afterFailures demoLib demoSettings [-1, 0] 0 0)"
    unfolding s0 by (simp add: demo_attempt_fail)
  have f1: "\<not> attemptFailed demoLib demoSettings (afterFailures demoLib demoSettings [-1, 0] 0 1)"
    unfolding s1 by (simp add: demo_attempt_ok)
  have before: "\<forall>j<1. attemptFailed demoLib demoSettings (afterFailures demoLib demoSettings [-1, 0] 0 j)"
    using f0 by simp
  have "\<forall>k<1000. (\<forall>j<k. attemptFailed demoLib demoSettings (afterFailures demoLib demoSettings [-1, 0] 0 j))
          \<and> \<not> attemptFailed demoLib demoSettings (afterFailures demoLib demoSettings [-1, 0] 0 k)
        \<longrightarrow> computeTrajectory demoLib demoSettings [-1, 0] 0 1000
              = Inr (attemptResult demoLib demoSettings (afterFailures demoLib demoSettings [-1, 0] 0 k))"
    by (rule conjunct2[OF computeTrajectory_retries])
  then have "1 < (1000::nat) \<longrightarrow> (\<forall>j<1. attemptFailed demoLib demoSettings (afterFailures demoLib demoSettings [-1, 0] 0 j))
          \<and> \<not> attemptFailed demoLib demoSettings (afterFailures demoLib demoSettings [-1, 0] 0 1)
        \<longrightarrow> computeTrajectory demoLib demoSettings [-1, 0] 0 1000
              = Inr (attemptResult demoLib demoSettings (afterFailures demoLib demoSettings [-1, 0] 0 1))"
    by (rule spec)
  with before f1 have "computeTrajectory demoLib demoSettings [-1, 0] 0 1000
              = Inr (attemptResult demoLib demoSettings (afterFailures demoLib demoSettings [-1, 0] 0 1))"
    by simp
  also have "attemptResult demoLib demoSettings (afterFailures demoLib demoSettings [-1, 0] 0 1)
       = ([50, 20], [50, 20], 1)"
    unfolding s1 by (simp add: attemptResult_def tryCompute_def demoLib_def)
  finally show ?thesis using f0 f1 by (intro conjI)
qed

subsection \<open>The value of the fitness function\<close>

lemma fitness_Inr:
  assumes "fitness lib system settings st agent = Inr (cost, agent1, st2)"
  obtains trajectory g1 pvc where
    "computeTrajectory lib settings agent (rng st) 1000 = Inr (trajectory, agent1, g1)"
    "calcSteps lib trajectory \<noteq> []"
    "periVelCost lib system settings (last (calcSteps lib trajectory)) = Inr pvc"
    "cost = totalDeltaV lib trajectory
           + totalDeltaV lib trajectory * \<bar>el_inclination (orbitElts (last (calcSteps lib trajectory)))\<bar> * (1/10)
           + pvc
           + max 0 (totalDuration lib trajectory - maxDuration settings) * totalDeltaV lib trajectory"
    "st2 = (if lessBest (totalDeltaV lib trajectory) (bestDeltaV st)
            then st\<lparr>bestDeltaV := Finite (totalDeltaV lib trajectory), bestTrajectory := Some trajectory\<rparr>
            else st)\<lparr>newDeltaVs := newDeltaVs st @ [totalDeltaV lib trajectory], rng := g1\<rparr>"
  using assms unfolding fitness_def Let_def
  by (auto split: sum.splits prod.splits if_splits)

lemma fitness_success:
  assumes "computeTrajectory lib settings agent (rng st) 1000 = Inr (trajectory, agent1, g1)"
    and "calcSteps lib trajectory \<noteq> []"
    and "periVelCost lib system settings (last (calcSteps lib trajectory)) = Inr pvc"
  shows "fitness lib system settings st agent =
     Inr (totalDeltaV lib trajectory
           + totalDeltaV lib trajectory * \<bar>el_inclination (orbitElts (last (calcSteps lib trajectory)))\<bar> * (1/10)
           + pvc
           + max 0 (totalDuration lib trajectory - maxDuration settings) * totalDeltaV lib trajectory,
          agent1,
          (if lessBest (totalDeltaV lib trajectory) (bestDeltaV st)
            then st\<lparr>bestDeltaV := Finite (totalDeltaV lib trajectory), bestTrajectory := Some trajectory\<rparr>
            else st)\<lparr>newDeltaVs := newDeltaVs (if lessBest (totalDeltaV lib trajectory) (bestDeltaV st)
            then st\<lparr>bestDeltaV := Finite (totalDeltaV lib trajectory), bestTrajectory := Some trajectory\<rparr>
            else st) @ [totalDeltaV lib trajectory], rng := g1\<rparr>)"
  using assms unfolding fitness_def Let_def by simp

text \<open>
  Claim C1.  When \<^verbatim>\<open>_computeTrajectory\<close> returns a trajectory with at least one step
  (and, if the settings ask for no insertion burn, the attractor of its last step is a
  body of the system), \<^verbatim>\<open>fitness\<close> returns
  \<open>totDV + totDV * |inclination| * 0.1 + periVelCost + max 0 (duration - maxDuration) * totDV\<close>,
  where \<open>periVelCost\<close> is the velocity at the radius \<open>destAltitude + radius\<close> minus the
  circular velocity there when \<^verbatim>\<open>noInsertion\<close> is set, and 0 otherwise.  The last term is
  0 when the duration does not exceed \<^verbatim>\<open>maxDuration\<close>.
\<close>

theorem fitness_value:
  assumes "computeTrajectory lib settings agent (rng st) 1000 = Inr (trajectory, agent1, g1)"
    and "calcSteps lib trajectory \<noteq> []"
    and "noInsertion settings \<longrightarrow> attractorId (last (calcSteps lib trajectory)) < length system"
  shows "\<exists>st2. fitness lib system settings st agent =
      Inr (totalDeltaV lib trajectory
           + totalDeltaV lib trajectory
               * \<bar>el_inclination (orbitElts (last (calcSteps lib trajectory)))\<bar> * (1/10)
           + (if noInsertion settings then
                velocityAtRadius lib (orbitElts (last (calcSteps lib trajectory)))
                    (system ! attractorId (last (calcSteps lib trajectory)))
                    (destAltitude settings
                       + radius_of (system ! attractorId (last (calcSteps lib trajectory))))
                - circularVelocity lib (system ! attractorId (last (calcSteps lib trajectory)))
                    (destAltitude settings
                       + radius_of (system ! attractorId (last (calcSteps lib trajectory))))
              else 0)
           + max 0 (totalDuration lib trajectory - maxDuration settings) * totalDeltaV lib trajectory,
           agent1, st2)
     \<and> (totalDuration lib trajectory \<le> maxDuration settings \<longrightarrow>
           max 0 (totalDuration lib trajectory - maxDuration settings) * totalDeltaV lib trajectory = 0)"
proof -
  let ?last = "last (calcSteps lib trajectory)"
  let ?pvc = "if noInsertion settings then
                velocityAtRadius lib (orbitElts ?last) (system ! attractorId ?last)
                    (destAltitude settings + radius_of (system ! attractorId ?last))
                - circularVelocity lib (system ! attractorId ?last)
                    (destAltitude settings + radius_of (system ! attractorId ?last))
              else 0"
  have p: "periVelCost lib system settings ?last = Inr ?pvc"
    using assms(3) by (simp add: periVelCost_def Let_def)
  have z: "totalDuration lib trajectory \<le> maxDuration settings \<longrightarrow>
           max 0 (totalDuration lib trajectory - maxDuration settings) * totalDeltaV lib trajectory = 0"
    by (simp add: max_def)
  show ?thesis using fitness_success[OF assms(1,2) p] z by (intro exI conjI)
qed

theorem fitness_value_witness:
  "computeTrajectory demoLib insertionSettings [100, 60] (rng demoState0) 1000
      = Inr ([100, 60], [100, 60], 0)
   \<and> (\<exists>st2. fitness demoLib demoBodies insertionSettings demoState0 [100, 60] = Inr (1106, [100, 60], st2))"
proof -
  have c: "computeTrajectory demoLib insertionSettings [100, 60] (rng demoState0) 1000
            = Inr ([100, 60], [100, 60], 0)"
    by (simp add: demo_compute_ok demoState0_def)
  have s: "calcSteps demoLib [100, 60] \<noteq> []" by (simp add: demoLib_def)
  have a: "noInsertion insertionSettings \<longrightarrow>
             attractorId (last (calcSteps demoLib [100, 60])) < length demoBodies"
    by (simp add: demoLib_def demoStep_def demoBodies_def)
  have v: "totalDeltaV demoLib [100, 60]
           + totalDeltaV demoLib [100, 60]
               * \<bar>el_inclination (orbitElts (last (calcSteps demoLib [100, 60])))\<bar> * (1/10)
           + (if noInsertion insertionSettings then
                velocityAtRadius demoLib (orbitElts (last (calcSteps demoLib [100, 60])))
                    (demoBodies ! attractorId (last (calcSteps demoLib [100, 60])))
                    (destAltitude insertionSettings
                       + radius_of (demoBodies ! attractorId (last (calcSteps demoLib [100, 60]))))
                - circularVelocity demoLib (demoBodies ! attractorId (last (calcSteps demoLib [100, 60])))
                    (destAltitude insertionSettings
                       + radius_of (demoBodies ! attractorId (last (calcSteps demoLib [100, 60]))))
              else 0)
           + max 0 (totalDuration demoLib [100, 60] - maxDuration insertionSettings)
               * totalDeltaV demoLib [100, 60] = 1106"
    by (simp add: demoLib_def demoStep_def insertionSettings_def demoBodies_def unitBody_def)
  from fitness_value[OF c s a]
  have "\<exists>st2. fitness demoLib demoBodies insertionSettings demoState0 [100, 60] = Inr (1106, [100, 60], st2)"
    unfolding v by (elim exE conjE) (rule exI)
  with c show ?thesis by (rule conjI)
qed

subsection \<open>The best trajectory\<close>

lemma leBest_refl: "leBest b b" by (cases b) simp_all

lemma leBest_trans: "leBest a b \<Longrightarrow> leBest b c \<Longrightarrow> leBest a c"
  by (cases a; cases b; cases c) simp_all

lemma lessBest_leBest: "lessBest d b \<Longrightarrow> leBest (Finite d) b"
  by (cases b) simp_all

lemma not_lessBest_leBest: "\<not> lessBest d b \<Longrightarrow> leBest b (Finite d)"
  by (cases b) simp_all

lemma demo_fitness1:
  "fitness demoLib demoBodies demoSettings demoState0 [100, 10] = Inr (100, [100, 10], demoState1)"
proof -
  have c: "computeTrajectory demoLib demoSettings [100, 10] (rng demoState0) 1000
            = Inr ([100, 10], [100, 10], 0)"
    by (simp add: demo_compute_ok demoState0_def)
  have s: "calcSteps demoLib [100, 10] \<noteq> []" by (simp add: demoLib_def)
  have p: "periVelCost demoLib demoBodies demoSettings (last (calcSteps demoLib [100, 10])) = Inr 0"
    by (simp add: periVelCost_def demoSettings_def)
  show ?thesis unfolding fitness_success[OF c s p]
    by (simp add: demoLib_def demoStep_def demoSettings_def demoState0_def demoState1_def)
qed

lemma demo_fitness2:
  "fitness demoLib demoBodies demoSettings demoState1 [90, 60] = Inr (990, [90, 60], demoState2)"
proof -
  have c: "computeTrajectory demoLib demoSettings [90, 60] (rng demoState1) 1000
            = Inr ([90, 60], [90, 60], 0)"
    by (simp add: demo_compute_ok demoState1_def)
  have s: "calcSteps demoLib [90, 60] \<noteq> []" by (simp add: demoLib_def)
  have p: "periVelCost demoLib demoBodies demoSettings (last (calcSteps demoLib [90, 60])) = Inr 0"
    by (simp add: periVelCost_def demoSettings_def)
  show ?thesis unfolding fitness_success[OF c s p]
    by (simp add: demoLib_def demoStep_def demoSettings_def demoState1_def demoState2_def)
qed

text \<open>
  Claim C3, as stated, fails when the cost of a trajectory is the value of the fitness
  function: the worker compares total delta-V.  With \<^verbatim>\<open>maxDuration\<close> 50, a trajectory of
  delta-V 100 and duration 10 has cost 100; a trajectory of delta-V 90 and duration 60
  has cost 990, and replaces it as the best trajectory.
\<close>

theorem best_tracker_counterexample:
  "fitness demoLib demoBodies demoSettings demoState0 [100, 10] = Inr (100, [100, 10], demoState1)
   \<and> fitness demoLib demoBodies demoSettings demoState1 [90, 60] = Inr (990, [90, 60], demoState2)
   \<and> \<not> (990 :: real) < 100
   \<and> bestTrajectory demoState1 = Some [100, 10]
   \<and> bestTrajectory demoState2 = Some [90, 60]"
proof -
  have "\<not> (990 :: real) < 100" by simp
  moreover have "bestTrajectory demoState1 = Some [100, 10]" by (simp add: demoState1_def)
  moreover have "bestTrajectory demoState2 = Some [90, 60]" by (simp add: demoState2_def)
  ultimately show ?thesis using demo_fitness1 demo_fitness2 by (intro conjI)
qed

lemma searchRun_best:
  assumes "searchRun lib system settings st dvs st'"
  shows "leBest (bestDeltaV st') (bestDeltaV st)
     \<and> (\<forall>d\<in>set dvs. leBest (bestDeltaV st') (Finite d))
     \<and> (bestDeltaV st' = bestDeltaV st \<or> (\<exists>d\<in>set dvs. bestDeltaV st' = Finite d))"
  using assms
proof (induction rule: searchRun.induct)
  case (start st)
  then show ?case by (simp add: leBest_refl)
next
  case (evaluate st dvs st1 agent trajectory agent1 g1 cost st2)
  from fitness_Inr[OF evaluate.hyps(3)] obtain trajectory' g1' where
    t: "computeTrajectory lib settings agent (rng st1) 1000 = Inr (trajectory', agent1, g1')"
    and s: "st2 = (if lessBest (totalDeltaV lib trajectory') (bestDeltaV st1)
            then st1\<lparr>bestDeltaV := Finite (totalDeltaV lib trajectory'), bestTrajectory := Some trajectory'\<rparr>
            else st1)\<lparr>newDeltaVs := newDeltaVs st1 @ [totalDeltaV lib trajectory'], rng := g1'\<rparr>"
    by metis
  from t evaluate.hyps(2) have same: "trajectory' = trajectory" by simp
  let ?d = "totalDeltaV lib trajectory"
  show ?case
  proof (cases "lessBest ?d (bestDeltaV st1)")
    case True
    then have b: "bestDeltaV st2 = Finite ?d" using s same by simp
    have l1: "leBest (Finite ?d) (bestDeltaV st1)" using True by (rule lessBest_leBest)
    have "leBest (bestDeltaV st2) (bestDeltaV st)"
      unfolding b using l1 evaluate.IH leBest_trans by blast
    moreover have "\<forall>d\<in>set (dvs @ [?d]). leBest (bestDeltaV st2) (Finite d)"
    proof
      fix d assume "d \<in> set (dvs @ [?d])"
      then consider "d = ?d" | "d \<in> set dvs" by auto
      then show "leBest (bestDeltaV st2) (Finite d)"
      proof cases
        case 1 then show ?thesis unfolding b by simp
      next
        case 2
        then have "leBest (bestDeltaV st1) (Finite d)" using evaluate.IH by blast
        with l1 show ?thesis unfolding b by (rule leBest_trans)
      qed
    qed
    moreover have "\<exists>d\<in>set (dvs @ [?d]). bestDeltaV st2 = Finite d" using b by simp
    ultimately show ?thesis by blast
  next
    case False
    then have b: "bestDeltaV st2 = bestDeltaV st1" using s same by simp
    have l1: "leBest (bestDeltaV st1) (Finite ?d)" using False by (rule not_lessBest_leBest)
    have "leBest (bestDeltaV st2) (bestDeltaV st)" unfolding b using evaluate.IH by simp
    moreover have "\<forall>d\<in>set (dvs @ [?d]). leBest (bestDeltaV st2) (Finite d)"
      unfolding b using l1 evaluate.IH by auto
    moreover have "bestDeltaV st2 = bestDeltaV st \<or> (\<exists>d\<in>set (dvs @ [?d]). bestDeltaV st2 = Finite d)"
      unfolding b using evaluate.IH by auto
    ultimately show ?thesis by blast
  qed
next
  case (bookkeeping st dvs st1 nd d)
  then show ?case by simp
next
  case (finalize st dvs st1)
  then show ?case by simp
qed

text \<open>
  Claim C3, amended: the worker keeps the trajectory of lowest total delta-V.  An
  evaluation of \<^verbatim>\<open>fitness\<close> replaces \<^verbatim>\<open>_bestDeltaV\<close> and \<^verbatim>\<open>_bestTrajectory\<close> together,
  by the total delta-V of the new trajectory and the trajectory itself, when that total
  delta-V is strictly below \<^verbatim>\<open>_bestDeltaV\<close>, and leaves both as they are otherwise.
  Along a search \<^verbatim>\<open>_bestDeltaV\<close> never increases, it is at most the total delta-V of
  every trajectory evaluated, and it is the initial value or one of these; from the
  start of a search (\<^verbatim>\<open>Infinity\<close>) it is the least total delta-V evaluated so far.
\<close>

theorem best_tracker_deltaV:
  "(fitness lib system settings st agent = Inr (cost, agent1, st2) \<longrightarrow>
      (\<exists>trajectory g1.
          computeTrajectory lib settings agent (rng st) 1000 = Inr (trajectory, agent1, g1)
        \<and> (if lessBest (totalDeltaV lib trajectory) (bestDeltaV st)
           then bestDeltaV st2 = Finite (totalDeltaV lib trajectory)
              \<and> bestTrajectory st2 = Some trajectory
           else bestDeltaV st2 = bestDeltaV st \<and> bestTrajectory st2 = bestTrajectory st)))
   \<and> (searchRun lib system settings st dvs st' \<longrightarrow>
        leBest (bestDeltaV st') (bestDeltaV st)
      \<and> (\<forall>d\<in>set dvs. leBest (bestDeltaV st') (Finite d))
      \<and> (bestDeltaV st' = bestDeltaV st \<or> (\<exists>d\<in>set dvs. bestDeltaV st' = Finite d)))
   \<and> (searchRun lib system settings (startSearch st0) dvs st' \<and> dvs \<noteq> [] \<longrightarrow>
        (\<exists>d\<in>set dvs. bestDeltaV st' = Finite d \<and> (\<forall>d'\<in>set dvs. d \<le> d')))"
proof (rule conjI[OF impI conjI[OF impI impI]])
  assume f: "fitness lib system settings st agent = Inr (cost, agent1, st2)"
  from fitness_Inr[OF f] obtain trajectory g1 where
    t: "computeTrajectory lib settings agent (rng st) 1000 = Inr (trajectory, agent1, g1)"
    and s: "st2 = (if lessBest (totalDeltaV lib trajectory) (bestDeltaV st)
            then st\<lparr>bestDeltaV := Finite (totalDeltaV lib trajectory), bestTrajectory := Some trajectory\<rparr>
            else st)\<lparr>newDeltaVs := newDeltaVs st @ [totalDeltaV lib trajectory], rng := g1\<rparr>"
    by metis
  have "if lessBest (totalDeltaV lib trajectory) (bestDeltaV st)
           then bestDeltaV st2 = Finite (totalDeltaV lib trajectory)
              \<and> bestTrajectory st2 = Some trajectory
           else bestDeltaV st2 = bestDeltaV st \<and> bestTrajectory st2 = bestTrajectory st"
    unfolding s by simp
  with t show "\<exists>trajectory g1.
          computeTrajectory lib settings agent (rng st) 1000 = Inr (trajectory, agent1, g1)
        \<and> (if lessBest (totalDeltaV lib trajectory) (bestDeltaV st)
           then bestDeltaV st2 = Finite (totalDeltaV lib trajectory)
              \<and> bestTrajectory st2 = Some trajectory
           else bestDeltaV st2 = bestDeltaV st \<and> bestTrajectory st2 = bestTrajectory st)"
    by (intro exI conjI)
next
  assume r: "searchRun lib system settings st dvs st'"
  show "leBest (bestDeltaV st') (bestDeltaV st)
      \<and> (\<forall>d\<in>set dvs. leBest (bestDeltaV st') (Finite d))
      \<and> (bestDeltaV st' = bestDeltaV st \<or> (\<exists>d\<in>set dvs. bestDeltaV st' = Finite d))"
    by (rule searchRun_best[OF r])
next
  assume a: "searchRun lib system settings (startSearch st0) dvs st' \<and> dvs \<noteq> []"
  then have r: "searchRun lib system settings (startSearch st0) dvs st'" and ne: "dvs \<noteq> []"
    by simp_all
  have i: "bestDeltaV (startSearch st0) = Infinity" by (simp add: startSearch_def)
  from searchRun_best[OF r] have
    low: "\<forall>d\<in>set dvs. leBest (bestDeltaV st') (Finite d)"
    and src: "bestDeltaV st' = Infinity \<or> (\<exists>d\<in>set dvs. bestDeltaV st' = Finite d)"
    unfolding i by simp_all
  from ne obtain d0 where d0: "d0 \<in> set dvs" by (cases dvs) auto
  with low have "leBest (bestDeltaV st') (Finite d0)" by blast
  then have "bestDeltaV st' \<noteq> Infinity" by auto
  with src obtain d where d: "d \<in> set dvs" "bestDeltaV st' = Finite d" by blast
  have "\<forall>d'\<in>set dvs. d \<le> d'" using low unfolding d(2) by simp
  with d show "\<exists>d\<in>set dvs. bestDeltaV st' = Finite d \<and> (\<forall>d'\<in>set dvs. d \<le> d')" by blast
qed

lemma demo_run: "searchRun demoLib demoBodies demoSettings demoState0 [100, 90] demoState2"
proof -
  have c1: "computeTrajectory demoLib demoSettings [100, 10] (rng demoState0) 1000
            = Inr ([100, 10], [100, 10], 0)"
    by (simp add: demo_compute_ok demoState0_def)
  have c2: "computeTrajectory demoLib demoSettings [90, 60] (rng demoState1) 1000
            = Inr ([90, 60], [90, 60], 0)"
    by (simp add: demo_compute_ok demoState1_def)
  have "searchRun demoLib demoBodies demoSettings demoState0 [] demoState0"
    by (rule searchRun.start)
  from searchRun.evaluate[OF this c1 demo_fitness1]
  have "searchRun demoLib demoBodies demoSettings demoState0 [100] demoState1"
    by (simp add: demoLib_def)
  from searchRun.evaluate[OF this c2 demo_fitness2]
  show ?thesis by (simp add: demoLib_def)
qed

theorem best_tracker_deltaV_witness:
  "searchRun demoLib demoBodies demoSettings demoState0 [100, 90] demoState2
   \<and> leBest (bestDeltaV demoState2) (bestDeltaV demoState0)
   \<and> leBest (bestDeltaV demoState2) (Finite 100)
   \<and> leBest (bestDeltaV demoState2) (Finite 90)"
proof -
  note t = best_tracker_deltaV[of demoLib demoBodies demoSettings demoState0 _ _ _ _
      "[100, 90]" demoState2]
  have "searchRun demoLib demoBodies demoSettings demoState0 [100, 90] demoState2 \<longrightarrow>
        leBest (bestDeltaV demoState2) (bestDeltaV demoState0)
      \<and> (\<forall>d\<in>set [100, 90]. leBest (bestDeltaV demoState2) (Finite d))
      \<and> (bestDeltaV demoState2 = bestDeltaV demoState0
           \<or> (\<exists>d\<in>set [100, 90]. bestDeltaV demoState2 = Finite d))"
    by (rule conjunct1[OF conjunct2[OF t]])
  with demo_run show ?thesis by simp
qed

subsection \<open>The ejection angle\<close>













text \<open>
  The clamp is not idle under these hypotheses.  The rounding to the multiples of 4
  satisfies them, and with it the dot product of the normalized vector \<open>(1, 0)\<close> with
  itself is 16, of which \<^verbatim>\<open>Math.acos\<close> is NaN; clamped, it is 1.  Over the reals, and in
  doubles up to a few units in the last place, the dot product of two normalized vectors
  is within \<open>[-1, 1]\<close>.
\<close>

lemma coarseRounding_mono:
  assumes "a \<le> b"
  shows "coarseRounding a \<le> coarseRounding b"
proof -
  consider "0 \<le> a" | "a < 0" "0 \<le> b" | "b < 0" using assms by linarith
  then show ?thesis
  proof cases
    case 1
    then have b: "0 \<le> b" using assms by simp
    have "\<lceil>a / 4\<rceil> \<le> \<lceil>b / 4\<rceil>" using assms by (intro ceiling_mono) simp
    then show ?thesis using 1 b by (simp add: coarseRounding_def)
  next
    case 2
    have "0 \<le> \<lceil>- (a / 4)\<rceil>" using 2(1) by (simp add: le_ceiling_iff)
    then have p: "0 \<le> real_of_int \<lceil>- (a / 4)\<rceil>" by simp
    have "0 \<le> \<lceil>b / 4\<rceil>" using 2(2) by (simp add: le_ceiling_iff)
    then have q: "0 \<le> real_of_int \<lceil>b / 4\<rceil>" by simp
    have ca: "coarseRounding a = - (4 * real_of_int \<lceil>- (a / 4)\<rceil>)"
      using 2(1) by (simp add: coarseRounding_def)
    have cb: "coarseRounding b = 4 * real_of_int \<lceil>b / 4\<rceil>"
      using 2(2) by (simp add: coarseRounding_def)
    show ?thesis unfolding ca cb using p q by linarith
  next
    case 3
    then have a: "a < 0" using assms by simp
    have "\<lceil>- b / 4\<rceil> \<le> \<lceil>- a / 4\<rceil>" using assms by (intro ceiling_mono) simp
    then show ?thesis using 3 a by (simp add: coarseRounding_def)
  qed
qed

lemma coarseRounding_pi: "coarseRounding pi = 4"
proof -
  have "\<lceil>pi / 4\<rceil> = 1" using pi_gt_zero pi_less_4 by (simp add: ceiling_eq_iff)
  then show ?thesis using pi_gt_zero by (simp add: coarseRounding_def)
qed

lemma coarse_rounding: "doubleRounding coarseRounding"
proof -
  have m: "\<forall>a b. a \<le> b \<longrightarrow> coarseRounding a \<le> coarseRounding b"
    using coarseRounding_mono by blast
  have v: "coarseRounding 0 = 0" "coarseRounding 180 = 180" "coarseRounding (- 180) = - 180"
    "coarseRounding 720 = 720"
    by (simp_all add: coarseRounding_def)
  have "coarseRounding (coarseRounding (coarseRounding pi * 180) / coarseRounding pi) \<le> 180"
    unfolding coarseRounding_pi by (simp add: v)
  then show ?thesis unfolding doubleRounding_def using m v(1-3) coarseRounding_pi by simp
qed

lemma coarse_values:
  "coarseRounding 1 = 4" "coarseRounding 2 = 4" "coarseRounding 4 = 4" "coarseRounding (1/4) = 4"
  "coarseRounding 16 = 16" "coarseRounding 0 = 0"
  by (simp_all add: coarseRounding_def ceiling_eq_iff)

lemma coarse_normalize:
  "v2normalize coarseRounding \<lparr>vx = Num 1, vy = Num 0\<rparr> = \<lparr>vx = Num 4, vy = Num 0\<rparr>"
  by (simp add: v2normalize_def v2divideScalar_def v2multiplyScalar_def v2length_def truthy_def
      coarse_values)

lemma clamp_is_needed:
  "doubleRounding coarseRounding
   \<and> v2dot coarseRounding (v2normalize coarseRounding \<lparr>vx = Num 1, vy = Num 0\<rparr>)
        (v2normalize coarseRounding \<lparr>vx = Num 1, vy = Num 0\<rparr>) = Num 16
   \<and> jsAcos coarseRounding (Num 16) = NaN
   \<and> jsAcos coarseRounding (jsMin (jsMax (Num 16) (Num (- 1))) (Num 1)) = Num 0"
  by (simp add: coarse_rounding coarse_normalize v2dot_def coarse_values)














end
